theory Spec2Isabelle
  imports Complex_Main
begin

section \<open>Python values shared by the modules\<close>

text \<open>
  The sources are the Twisted client of stompest (\<^verbatim>\<open>stompest/async/client.py\<close>), the
  listeners written for its successor (\<^verbatim>\<open>stompest/asynchronous/listener.py\<close>) and the
  unit test of the correlation registry (\<^verbatim>\<open>tests/async_util.py\<close>).

  An exception is a value: its class and its message. A function that may raise returns
  \<open>exn + 'a\<close>, with \<open>Inl\<close> the exception raised. \<open>OtherError\<close> stands for any exception
  class of a collaborator (a transport failure of the endpoint, for instance).
\<close>

datatype exn_class =
    KeyError | ValueError | TypeError | AttributeError | RuntimeError
  | CancelledError | AlreadyCalledError
  | StompConnectionError | StompCancelledError | StompProtocolError | StompFrameError
  | OtherError

datatype exn = Exn (cls: exn_class) (msg: string)

type_synonym ref = nat

type_synonym dict = "string \<rightharpoonup> string"

text \<open>
  A frame has a command, a header dictionary and a body. \<open>info\<close> is the text that
  \<^verbatim>\<open>frame.info()\<close> renders (the frame class is not among the sources, so the rendering
  is carried along). The type parameter is how the headers are held: by value (a \<open>dict\<close>)
  where nothing depends on sharing, by reference into a store where a listener keeps the
  very dictionary of the frame.
\<close>

record 'h frame =
  command :: string
  headers :: 'h
  body :: string
  info :: string

text \<open>Constants of \<^verbatim>\<open>StompSpec\<close>, as the protocol names them.\<close>

definition MESSAGE_ID_HEADER :: string where
  "MESSAGE_ID_HEADER = ''message-id''"

definition ACK_HEADER :: string where
  "ACK_HEADER = ''ack''"

definition CLIENT_ACK_MODES :: "string list" where
  "CLIENT_ACK_MODES = [''client'', ''client-individual'']"

text \<open>Python's \<^verbatim>\<open>needle in haystack\<close> on strings: the needle starts at some position.\<close>

fun starts_with :: "string \<Rightarrow> string \<Rightarrow> bool" where
  "starts_with [] hay = True"
| "starts_with (c # cs) [] = False"
| "starts_with (c # cs) (d # ds) = (c = d \<and> starts_with cs ds)"

fun str_in :: "string \<Rightarrow> string \<Rightarrow> bool" where
  "str_in needle [] = (needle = [])"
| "str_in needle (d # ds) = (starts_with needle (d # ds) \<or> str_in needle ds)"

section \<open>The correlation registry: \<^verbatim>\<open>InFlightOperations\<close> and \<^verbatim>\<open>WaitingDeferred\<close>\<close>

text \<open>
  A deferred is pending until it is called back (with a value, \<open>None\<close> included) or
  errbacked. Deferreds are objects: the store \<open>deferreds\<close> holds the state of each,
  and the registry maps a key to the reference of its handle.
\<close>

datatype 'v deferred = Pending | Succeeded "'v option" | Failed exn

record ('k, 'v) ops =
  waiting :: "'k \<rightharpoonup> ref"
  deferreds :: "ref \<Rightarrow> 'v deferred"
  next_ref :: ref

definition called :: "'v deferred \<Rightarrow> bool" where
  "called d = (d \<noteq> Pending)"

text \<open>\<^verbatim>\<open>InFlightOperations('test')\<close>: an empty registry.\<close>

definition InFlightOperations :: "('k, 'v) ops" where
  "InFlightOperations = \<lparr>waiting = Map.empty, deferreds = (\<lambda>r. Pending), next_ref = 0\<rparr>"

text \<open>\<^verbatim>\<open>defer.Deferred()\<close>: a fresh pending deferred.\<close>

definition Deferred :: "('k, 'v) ops \<Rightarrow> ref \<times> ('k, 'v) ops" where
  "Deferred reg = (next_ref reg,
     reg\<lparr>deferreds := (deferreds reg)(next_ref reg := Pending), next_ref := Suc (next_ref reg)\<rparr>)"

text \<open>
  Modelled from the spec: the class \<^verbatim>\<open>InFlightOperations\<close> of
  \<^verbatim>\<open>stompest.asynchronous.util\<close> is not among the sources; only its unit test is.
  The dictionary interface is the one \<^verbatim>\<open>test_dict_interface\<close> exercises: a key has at
  most one live entry, storing under a key that is present is an error and not an
  overwrite (the test expects \<^verbatim>\<open>KeyError\<close>, which the spec calls AlreadyInProgress),
  and reading or popping an absent key is a \<^verbatim>\<open>KeyError\<close>.
\<close>

definition setitem :: "('k, 'v) ops \<Rightarrow> 'k \<Rightarrow> ref \<Rightarrow> exn + ('k, 'v) ops" where
  "setitem reg k w =
     (if k \<in> dom (waiting reg) then Inl (Exn KeyError ''already in progress'')
      else Inr (reg\<lparr>waiting := (waiting reg)(k \<mapsto> w)\<rparr>))"

definition getitem :: "('k, 'v) ops \<Rightarrow> 'k \<Rightarrow> exn + ref" where
  "getitem reg k =
     (case waiting reg k of
        None \<Rightarrow> Inl (Exn KeyError ''not in progress'')
      | Some w \<Rightarrow> Inr w)"

definition get_default :: "('k, 'v) ops \<Rightarrow> 'k \<Rightarrow> ref option \<Rightarrow> ref option" where
  "get_default reg k d = (case waiting reg k of None \<Rightarrow> d | Some w \<Rightarrow> Some w)"

definition pop :: "('k, 'v) ops \<Rightarrow> 'k \<Rightarrow> exn + (ref \<times> ('k, 'v) ops)" where
  "pop reg k =
     (case waiting reg k of
        None \<Rightarrow> Inl (Exn KeyError ''not in progress'')
      | Some w \<Rightarrow> Inr (w, reg\<lparr>waiting := (waiting reg)(k := None)\<rparr>))"

text \<open>
  Modelled from the spec: \<^verbatim>\<open>create(key) -> handle\<close> fails if \<open>key\<close> is already
  registered; otherwise it installs a fresh pending handle and returns it.
\<close>

definition create :: "('k, 'v) ops \<Rightarrow> 'k \<Rightarrow> exn + (ref \<times> ('k, 'v) ops)" where
  "create reg k =
     (let (w, reg') = Deferred reg in
      case setitem reg' k w of
        Inl e \<Rightarrow> Inl e
      | Inr reg'' \<Rightarrow> Inr (w, reg''))"

text \<open>
  \<^verbatim>\<open>Deferred.callback\<close> and \<^verbatim>\<open>Deferred.errback\<close> of Twisted: a deferred is called
  once; a second call raises \<^verbatim>\<open>AlreadyCalledError\<close>.
\<close>

definition callback :: "('k, 'v) ops \<Rightarrow> ref \<Rightarrow> 'v option \<Rightarrow> exn + ('k, 'v) ops" where
  "callback reg w v =
     (if called (deferreds reg w) then Inl (Exn AlreadyCalledError [])
      else Inr (reg\<lparr>deferreds := (deferreds reg)(w := Succeeded v)\<rparr>))"

definition errback :: "('k, 'v) ops \<Rightarrow> ref \<Rightarrow> exn \<Rightarrow> exn + ('k, 'v) ops" where
  "errback reg w e =
     (if called (deferreds reg w) then Inl (Exn AlreadyCalledError [])
      else Inr (reg\<lparr>deferreds := (deferreds reg)(w := Failed e)\<rparr>))"

text \<open>
  Modelled from the spec: \<^verbatim>\<open>resolve(key, value)\<close> and \<^verbatim>\<open>reject(key, error)\<close> complete
  the handle and remove \<open>key\<close>; on an absent key, or a handle that is already completed,
  they do nothing more.
\<close>

definition resolve :: "('k, 'v) ops \<Rightarrow> 'k \<Rightarrow> 'v option \<Rightarrow> ('k, 'v) ops" where
  "resolve reg k v =
     (case waiting reg k of
        None \<Rightarrow> reg
      | Some w \<Rightarrow>
          (if called (deferreds reg w) then reg\<lparr>waiting := (waiting reg)(k := None)\<rparr>
           else reg\<lparr>deferreds := (deferreds reg)(w := Succeeded v),
                   waiting := (waiting reg)(k := None)\<rparr>))"

definition reject :: "('k, 'v) ops \<Rightarrow> 'k \<Rightarrow> exn \<Rightarrow> ('k, 'v) ops" where
  "reject reg k e =
     (case waiting reg k of
        None \<Rightarrow> reg
      | Some w \<Rightarrow>
          (if called (deferreds reg w) then reg\<lparr>waiting := (waiting reg)(k := None)\<rparr>
           else reg\<lparr>deferreds := (deferreds reg)(w := Failed e),
                   waiting := (waiting reg)(k := None)\<rparr>))"

text \<open>
  Modelled from the spec: \<^verbatim>\<open>WaitingDeferred.wait(timeout, fail)\<close> is not among the
  sources. It suspends the caller until the handle completes or \<open>timeout\<close> elapses, in
  which case the handle is rejected with \<open>fail\<close>. \<open>other\<close> is what another party does to
  the handle before the timer fires, if anything. The result \<open>None\<close> is a wait that never
  returns: no timeout and nobody completes the handle.

  \<open>wait\<close> is a method of the handle and does not reach the registry. That follows
  \<^verbatim>\<open>test_timeout\<close>, which after the expired wait still lists the key
  (\<^verbatim>\<open>self.assertEquals(list(op), [None])\<close>) and finds it gone only after the
  \<^verbatim>\<open>with\<close> block; \<open>wait_and_remove\<close> below is the reading in the spec's words, where
  the expiry also removes the entry of the key.
\<close>

datatype 'v completion = Callback "'v option" | Errback exn

definition wait ::
  "('k, 'v) ops \<Rightarrow> ref \<Rightarrow> real option \<Rightarrow> exn \<Rightarrow> 'v completion option
     \<Rightarrow> ((exn + 'v option) \<times> ('k, 'v) ops) option" where
  "wait reg w timeout fail other =
     (case deferreds reg w of
        Succeeded v \<Rightarrow> Some (Inr v, reg)
      | Failed e \<Rightarrow> Some (Inl e, reg)
      | Pending \<Rightarrow>
          (case other of
             Some (Callback v) \<Rightarrow> Some (Inr v, reg\<lparr>deferreds := (deferreds reg)(w := Succeeded v)\<rparr>)
           | Some (Errback e) \<Rightarrow> Some (Inl e, reg\<lparr>deferreds := (deferreds reg)(w := Failed e)\<rparr>)
           | None \<Rightarrow>
               (case timeout of
                  None \<Rightarrow> None
                | Some t \<Rightarrow> Some (Inl fail, reg\<lparr>deferreds := (deferreds reg)(w := Failed fail)\<rparr>))))"

definition wait_and_remove ::
  "('k, 'v) ops \<Rightarrow> 'k \<Rightarrow> ref \<Rightarrow> real option \<Rightarrow> exn \<Rightarrow> 'v completion option
     \<Rightarrow> ((exn + 'v option) \<times> ('k, 'v) ops) option" where
  "wait_and_remove reg k w timeout fail other =
     (case wait reg w timeout fail other of
        None \<Rightarrow> None
      | Some (r, reg') \<Rightarrow>
          (if deferreds reg w = Pending \<and> other = None
           then Some (r, reg'\<lparr>waiting := (waiting reg')(k := None)\<rparr>)
           else Some (r, reg')))"

text \<open>
  Modelled from the spec: the scoped-acquisition helper \<^verbatim>\<open>op(key, log)\<close> (a context
  manager) creates the entry, yields the handle to the caller, and guarantees removal on
  every exit path (normal return, exception, or the handle already having been resolved
  by another path). On a normal exit a handle that is still pending is called back with
  \<open>None\<close>; on an exception it is errbacked with the exception, which is raised again.
\<close>

definition scope_enter :: "('k, 'v) ops \<Rightarrow> 'k \<Rightarrow> exn + (ref \<times> ('k, 'v) ops)" where
  "scope_enter reg k = create reg k"

definition scope_exit :: "('k, 'v) ops \<Rightarrow> 'k \<Rightarrow> ref \<Rightarrow> exn option \<Rightarrow> exn option \<times> ('k, 'v) ops" where
  "scope_exit reg k w raised =
     (let reg' = (if called (deferreds reg w) then reg
                 else reg\<lparr>deferreds := (deferreds reg)
                        (w := (case raised of None \<Rightarrow> Succeeded None | Some e \<Rightarrow> Failed e))\<rparr>)
      in (raised, reg'\<lparr>waiting := (waiting reg')(k := None)\<rparr>))"

text \<open>\<^verbatim>\<open>list(op)\<close>: the keys present, here as a test of one key.\<close>

definition present :: "('k, 'v) ops \<Rightarrow> 'k \<Rightarrow> bool" where
  "present reg k = (waiting reg k \<noteq> None)"

text \<open>
  \<^verbatim>\<open>InFlightOperationsTest.test_dict_interface\<close>, lines 23 to 30, on any key \<open>k\<close> (the
  test uses 1): each component is one assertion of the test, in order. A step that the
  test expects to succeed and that raises makes the remaining assertions fail.
\<close>

definition test_dict_interface :: "'k \<Rightarrow> bool list" where
  "test_dict_interface k =
     (let reg0 = (InFlightOperations :: ('k, unit) ops);
          (w, reg1) = Deferred reg0
      in case setitem reg1 k w of
           Inl e \<Rightarrow> [False]
         | Inr reg2 \<Rightarrow>
             [present reg2 k,
              getitem reg2 k = Inr w,
              get_default reg2 k None = Some w,
              (let (w', reg3) = Deferred reg2 in
               case setitem reg3 k w' of Inl e \<Rightarrow> cls e = KeyError | Inr _ \<Rightarrow> False)] @
             (case pop reg2 k of
                Inl e \<Rightarrow> [False]
              | Inr (p, reg4) \<Rightarrow>
                  [p = w,
                   (case pop reg4 k of Inl e \<Rightarrow> cls e = KeyError | Inr _ \<Rightarrow> False),
                   (case setitem reg4 k w of Inl e \<Rightarrow> False | Inr reg5 \<Rightarrow> getitem reg5 k = Inr w)]))"

text \<open>
  \<^verbatim>\<open>InFlightOperationsTest.test_timeout\<close>: the wait with timeout 0 raises the error
  given; inside the \<^verbatim>\<open>with\<close> block the key is still listed; after the block it is not.
  The key of the test is \<^verbatim>\<open>None\<close>.
\<close>

definition test_timeout :: "bool list" where
  "test_timeout =
     (let reg0 = (InFlightOperations :: (unit option, unit) ops);
          hi = Exn RuntimeError ''hi''
      in case scope_enter reg0 None of
           Inl e \<Rightarrow> [False]
         | Inr (w, reg1) \<Rightarrow>
             (case wait reg1 w (Some 0) hi None of
                None \<Rightarrow> [False]
              | Some (r, reg2) \<Rightarrow>
                  [r = Inl hi,
                   present reg2 None,
                   \<not> present (snd (scope_exit reg2 None w None)) None]))"

section \<open>The listeners of \<^verbatim>\<open>listener.py\<close>\<close>

text \<open>
  A listener is handed the connection it is registered with. The connection class of the
  listeners (with \<^verbatim>\<open>remove\<close>, \<^verbatim>\<open>sendFrame\<close>, \<^verbatim>\<open>ack\<close>, \<^verbatim>\<open>disconnect(reason=...)\<close>, a
  \<^verbatim>\<open>session\<close> and the \<^verbatim>\<open>disconnected\<close> deferred) is not among the sources, so a
  connection is what a listener can see and do to it: the session fields the listeners
  read, the \<^verbatim>\<open>disconnected\<close> deferred, and the list of the calls made on it, in order.
\<close>

datatype listener_id =
  ConnectL | ErrorL | DisconnectL | ReceiptL | HeartBeatL | SubscriptionL ref

datatype 'h call =
    Remove listener_id
  | SendFrame_beat
  | AckFrame "'h frame"
  | Disconnect exn
  | SessionClose bool

record session =
  clientHeartBeat :: int
  serverHeartBeat :: int
  lastSent :: real
  lastReceived :: real

record 'h connection =
  session :: session
  calls :: "'h call list"
  disconnected :: "unit deferred"

datatype log_level = DEBUG | INFO | WARNING | ERROR

subsection \<open>\<^verbatim>\<open>ErrorListener\<close>\<close>

definition ErrorListener_onError :: "'h connection \<Rightarrow> 'h frame \<Rightarrow> 'h connection" where
  "ErrorListener_onError conn frame =
     conn\<lparr>calls := calls conn @ [Disconnect (Exn StompProtocolError (''Received '' @ info frame))]\<rparr>"

subsection \<open>\<^verbatim>\<open>DisconnectListener\<close>\<close>










subsection \<open>\<^verbatim>\<open>SubscriptionListener\<close>\<close>

text \<open>
  The listener keeps the very dictionary of the \<^verbatim>\<open>SUBSCRIBE\<close> frame
  (\<^verbatim>\<open>self._headers = frame.headers\<close>), so header dictionaries live in a store and a
  frame holds the reference of its own. \<open>sl_headers\<close> is \<open>None\<close> until \<^verbatim>\<open>onSubscribe\<close>
  has captured one. \<open>sl_self\<close> is the identity of the listener, against which the
  routing context is compared (\<^verbatim>\<open>context is not self\<close>).
\<close>

type_synonym heap = "ref \<Rightarrow> dict"

record subscription_listener =
  sl_self :: ref
  sl_ack :: bool
  sl_errorDestination :: "string option"
  sl_headers :: "ref option"
  sl_messages :: "(string, unit) ops"

definition DEFAULT_ACK_MODE :: string where
  "DEFAULT_ACK_MODE = ''client-individual''"

text \<open>\<^verbatim>\<open>SubscriptionListener(handler, ack, errorDestination)\<close> with a callable handler.\<close>

definition SubscriptionListener ::
  "ref \<Rightarrow> bool \<Rightarrow> string option \<Rightarrow> subscription_listener" where
  "SubscriptionListener self ack errorDestination =
     \<lparr>sl_self = self, sl_ack = ack, sl_errorDestination = errorDestination,
      sl_headers = None, sl_messages = InFlightOperations\<rparr>"

definition setdefault :: "dict \<Rightarrow> string \<Rightarrow> string \<Rightarrow> dict" where
  "setdefault d k v = (case d k of None \<Rightarrow> d(k \<mapsto> v) | Some _ \<Rightarrow> d)"

definition SubscriptionListener_onSubscribe ::
  "subscription_listener \<Rightarrow> heap \<Rightarrow> ref frame \<Rightarrow> ref \<Rightarrow> subscription_listener \<times> heap" where
  "SubscriptionListener_onSubscribe l hp frame ctx =
     (if ctx \<noteq> sl_self l then (l, hp)
      else if sl_headers l \<noteq> None then (l, hp)
      else (l\<lparr>sl_headers := Some (headers frame)\<rparr>,
            hp(headers frame := setdefault (hp (headers frame)) ACK_HEADER DEFAULT_ACK_MODE)))"

text \<open>Later invocations of \<^verbatim>\<open>onSubscribe\<close>, each with its frame and routing context.\<close>

fun onSubscribes ::
  "subscription_listener \<Rightarrow> heap \<Rightarrow> (ref frame \<times> ref) list \<Rightarrow> subscription_listener \<times> heap" where
  "onSubscribes l hp [] = (l, hp)"
| "onSubscribes l hp ((frame, ctx) # rest) =
     (let (l', hp') = SubscriptionListener_onSubscribe l hp frame ctx
      in onSubscribes l' hp' rest)"

text \<open>
  What the collaborators do while one message is handled: whether the user's handler
  raises, whether the failure hook \<^verbatim>\<open>_onMessageFailed\<close> raises when it is called, and
  whether \<^verbatim>\<open>connection.ack\<close> raises.
\<close>

record outcomes =
  handler_raises :: "exn option"
  onMessageFailed_raises :: "exn option"
  ack_raises :: "exn option"

text \<open>
  The \<^verbatim>\<open>finally\<close> block of \<^verbatim>\<open>onMessage\<close>. The first component is the exception the block
  raises, if any. Indexing \<^verbatim>\<open>self._headers\<close> while it is still \<^verbatim>\<open>None\<close> is a
  \<^verbatim>\<open>TypeError\<close>; a dictionary without the \<^verbatim>\<open>ack\<close> header is a \<^verbatim>\<open>KeyError\<close>.
\<close>

definition onMessage_finally ::
  "subscription_listener \<Rightarrow> heap \<Rightarrow> ref connection \<Rightarrow> (string, unit) ops \<Rightarrow> ref frame \<Rightarrow> ref
     \<Rightarrow> outcomes \<Rightarrow> exn option \<times> ref connection \<times> (string, unit) ops" where
  "onMessage_finally l hp conn reg frame w oc =
     (let completed = (if called (deferreds reg w) then reg
                  else reg\<lparr>deferreds := (deferreds reg)(w := Succeeded None)\<rparr>)
      in if sl_ack l then
           (case sl_headers l of
              None \<Rightarrow> (Some (Exn TypeError ''NoneType object is not subscriptable''), conn, reg)
            | Some h \<Rightarrow>
                (case hp h ACK_HEADER of
                   None \<Rightarrow> (Some (Exn KeyError ACK_HEADER), conn, reg)
                 | Some mode \<Rightarrow>
                     (if mode \<in> set CLIENT_ACK_MODES then
                        (case ack_raises oc of
                           Some e \<Rightarrow> (Some e, conn\<lparr>calls := calls conn @ [AckFrame frame]\<rparr>, reg)
                         | None \<Rightarrow> (None, conn\<lparr>calls := calls conn @ [AckFrame frame]\<rparr>, completed))
                      else (None, conn, completed))))
         else (None, conn, completed))"

text \<open>
  \<^verbatim>\<open>onMessage\<close>. The entry of the message id is acquired with the scoped helper of the
  registry; the handler runs, its exception goes to the failure hook; the \<^verbatim>\<open>finally\<close>
  block runs on every path, and an exception it raises replaces the one under way; the
  scope is left with whatever exception is then under way, which is the result.
\<close>

definition SubscriptionListener_onMessage ::
  "subscription_listener \<Rightarrow> heap \<Rightarrow> ref connection \<Rightarrow> ref frame \<Rightarrow> ref \<Rightarrow> outcomes
     \<Rightarrow> (exn + unit) \<times> subscription_listener \<times> ref connection" where
  "SubscriptionListener_onMessage l hp conn frame ctx oc =
     (if ctx \<noteq> sl_self l then (Inr (), l, conn)
      else case hp (headers frame) MESSAGE_ID_HEADER of
        None \<Rightarrow> (Inl (Exn KeyError MESSAGE_ID_HEADER), l, conn)
      | Some mid \<Rightarrow>
          (case scope_enter (sl_messages l) mid of
             Inl e \<Rightarrow> (Inl e, l, conn)
           | Inr (w, reg1) \<Rightarrow>
               (let under_way = (case handler_raises oc of
                                   None \<Rightarrow> None
                                 | Some e \<Rightarrow> onMessageFailed_raises oc);
                    (fin, conn1, reg2) = onMessage_finally l hp conn reg1 frame w oc;
                    raised = (case fin of Some e \<Rightarrow> Some e | None \<Rightarrow> under_way);
                    (r, reg3) = scope_exit reg2 mid w raised
                in ((case r of None \<Rightarrow> Inr () | Some e \<Rightarrow> Inl e),
                    l\<lparr>sl_messages := reg3\<rparr>, conn1))))"

subsection \<open>\<^verbatim>\<open>HeartBeatListener\<close>\<close>

text \<open>
  \<open>hb_heartBeats\<close> maps a direction to its pending delayed call, held as the delay (in
  seconds) it was scheduled with. Times are Python floats; they are taken as real
  numbers. The thresholds dictionary has both keys.
\<close>

datatype which = client | server

record heartbeat_listener =
  hb_thresholds :: "which \<Rightarrow> real"
  hb_heartBeats :: "which \<rightharpoonup> real"

definition DEFAULT_THRESHOLDS :: "which \<Rightarrow> real" where
  "DEFAULT_THRESHOLDS w = (case w of client \<Rightarrow> 0.8 | server \<Rightarrow> 2.0)"

definition HeartBeatListener :: "(which \<Rightarrow> real) \<Rightarrow> heartbeat_listener" where
  "HeartBeatListener thresholds = \<lparr>hb_thresholds = thresholds, hb_heartBeats = Map.empty\<rparr>"

text \<open>\<^verbatim>\<open>_beatRemaining(session, which)\<close>, with \<open>now\<close> the reading of \<^verbatim>\<open>time.time()\<close>.\<close>

definition HeartBeatListener_beatRemaining ::
  "heartbeat_listener \<Rightarrow> session \<Rightarrow> which \<Rightarrow> real \<Rightarrow> real" where
  "HeartBeatListener_beatRemaining l s w now =
     (let heartBeat = (case w of client \<Rightarrow> clientHeartBeat s | server \<Rightarrow> serverHeartBeat s)
      in if heartBeat = 0 then - 1
         else (let last = (case w of client \<Rightarrow> lastSent s | server \<Rightarrow> lastReceived s);
                   elapsed = now - last
               in max (hb_thresholds l w * real_of_int heartBeat / 1000 - elapsed) 0))"

text \<open>
  Modelled from the spec: \<^verbatim>\<open>connection.sendFrame\<close> and the session's \<^verbatim>\<open>sent()\<close> and
  \<^verbatim>\<open>received()\<close> are not among the sources. Any frame sent, heart-beats included,
  updates outbound activity (through the listener's own \<^verbatim>\<open>onSend\<close> hook, which calls
  \<^verbatim>\<open>session.sent()\<close>); any frame received updates inbound activity. \<open>t\<close> is the clock
  reading the session takes.
\<close>

definition session_sent :: "'h connection \<Rightarrow> real \<Rightarrow> 'h connection" where
  "session_sent conn t = conn\<lparr>session := (session conn)\<lparr>lastSent := t\<rparr>\<rparr>"

definition session_received :: "'h connection \<Rightarrow> real \<Rightarrow> 'h connection" where
  "session_received conn t = conn\<lparr>session := (session conn)\<lparr>lastReceived := t\<rparr>\<rparr>"

definition HeartBeatListener_onSend :: "'h connection \<Rightarrow> real \<Rightarrow> 'h connection" where
  "HeartBeatListener_onSend conn t = session_sent conn t"

definition HeartBeatListener_onFrame :: "'h connection \<Rightarrow> real \<Rightarrow> 'h connection" where
  "HeartBeatListener_onFrame conn t = session_received conn t"

definition sendFrame_beat :: "'h connection \<Rightarrow> real \<Rightarrow> 'h connection" where
  "sendFrame_beat conn t =
     HeartBeatListener_onSend (conn\<lparr>calls := calls conn @ [SendFrame_beat]\<rparr>) t"

text \<open>
  \<^verbatim>\<open>_beat(connection, which)\<close>. The pending call of the direction is popped and
  cancelled first, whatever that raises being swallowed. \<open>connection\<close> is \<open>None\<close> when
  the connection is lost. The clock is read three times at most: \<open>t1\<close> by the first
  \<^verbatim>\<open>_beatRemaining\<close>, \<open>ts\<close> by the session when the heart-beat is sent, \<open>t2\<close> by the
  second \<^verbatim>\<open>_beatRemaining\<close>.
\<close>

definition HeartBeatListener_beat ::
  "heartbeat_listener \<Rightarrow> 'h connection option \<Rightarrow> which \<Rightarrow> real \<times> real \<times> real
     \<Rightarrow> heartbeat_listener \<times> 'h connection option" where
  "HeartBeatListener_beat l connection w clock =
     (let (t1, ts, t2) = clock;
          l1 = l\<lparr>hb_heartBeats := (hb_heartBeats l)(w := None)\<rparr>
      in case connection of
           None \<Rightarrow> (l1, None)
         | Some conn \<Rightarrow>
             (let remaining = HeartBeatListener_beatRemaining l1 (session conn) w t1
              in if remaining < 0 then (l1, Some conn)
                 else if remaining = 0 then
                   (case w of
                      client \<Rightarrow>
                        (let conn1 = sendFrame_beat conn ts;
                             remaining' = HeartBeatListener_beatRemaining l1 (session conn1) w t2
                         in (l1\<lparr>hb_heartBeats := (hb_heartBeats l1)(w \<mapsto> remaining')\<rparr>,
                             Some conn1))
                    | server \<Rightarrow>
                        (l1, Some (conn\<lparr>calls := calls conn @
                           [Disconnect (Exn StompConnectionError ''Server heart-beat timeout'')]\<rparr>)))
                 else (l1\<lparr>hb_heartBeats := (hb_heartBeats l1)(w \<mapsto> remaining)\<rparr>, Some conn)))"

definition HeartBeatListener_beats ::
  "heartbeat_listener \<Rightarrow> 'h connection option \<Rightarrow> real \<times> real \<times> real
     \<Rightarrow> heartbeat_listener \<times> 'h connection option" where
  "HeartBeatListener_beats l connection clock =
     (let (l1, c1) = HeartBeatListener_beat l connection client clock
      in HeartBeatListener_beat l1 c1 server clock)"

text \<open>
  What can happen to the listener once it is connected: a pending delayed call fires (the
  reactor calls \<^verbatim>\<open>_beat\<close> only for a call that is pending), a frame arrives, a frame is
  sent, or the connection is lost (\<^verbatim>\<open>_beats(None)\<close>, then \<^verbatim>\<open>connection.remove(self)\<close>).
\<close>

datatype hb_event =
    Fires which "real \<times> real \<times> real"
  | FrameReceived real
  | FrameSent real
  | ConnectionLost

definition hb_step ::
  "heartbeat_listener \<times> 'h connection \<Rightarrow> hb_event \<Rightarrow> heartbeat_listener \<times> 'h connection" where
  "hb_step st ev =
     (let (l, conn) = st in
      case ev of
        Fires w clock \<Rightarrow>
          (if hb_heartBeats l w = None then (l, conn)
           else (case HeartBeatListener_beat l (Some conn) w clock of
                   (l', Some conn') \<Rightarrow> (l', conn')
                 | (l', None) \<Rightarrow> (l', conn)))
      | FrameReceived t \<Rightarrow> (l, HeartBeatListener_onFrame conn t)
      | FrameSent t \<Rightarrow> (l, HeartBeatListener_onSend conn t)
      | ConnectionLost \<Rightarrow>
          (fst (HeartBeatListener_beats l (None :: 'h connection option) (0, 0, 0)),
           conn\<lparr>calls := calls conn @ [Remove HeartBeatL]\<rparr>))"

fun hb_run ::
  "heartbeat_listener \<times> 'h connection \<Rightarrow> hb_event list \<Rightarrow> heartbeat_listener \<times> 'h connection" where
  "hb_run st [] = st"
| "hb_run st (ev # evs) = hb_run (hb_step st ev) evs"

text \<open>The heart-beat timeouts the connection has been escalated with.\<close>

definition timeouts :: "'h connection \<Rightarrow> nat" where
  "timeouts conn =
     length (filter (\<lambda>c. c = Disconnect (Exn StompConnectionError ''Server heart-beat timeout''))
       (calls conn))"

section \<open>The client of \<^verbatim>\<open>client.py\<close>\<close>

text \<open>
  The client talks to three collaborators whose code is not among the sources: the
  session (\<^verbatim>\<open>StompSession\<close>), the failover sequence (\<^verbatim>\<open>StompFailoverProtocol\<close>) and
  the protocol object that an endpoint hands back on a successful connect. Their answers
  are parameters of the functions below; what the client does to them is appended to
  \<open>effects\<close>, in order: the records logged, the delays slept, and the calls made on a
  protocol object. \<open>Disconnect_called\<close> marks every call of \<^verbatim>\<open>Stomp.disconnect\<close>, so
  that a call is seen also where its result is dropped.
\<close>

record broker =
  host :: string
  port :: nat

type_synonym token = "string \<times> string"

datatype log_msg =
    Endpoint_connect_failed
  | Session_connect_failed exn
  | Connecting broker
  | Could_not_connect broker exn
  | Delaying real
  | Replaying dict
  | Cannot_unsubscribe token
  | AMQ_no_client_individual

datatype effect =
    Log log_level log_msg
  | Sleep real
  | Protocol_send ref "dict frame"
  | Protocol_loseConnection ref
  | Protocol_disconnect ref "exn option"
  | Disconnect_called "exn option"

datatype handler = Callable ref | NotCallable

record subscription =
  sub_destination :: string
  sub_handler :: handler
  sub_ack :: bool
  sub_errorDestination :: "string option"

text \<open>
  The attributes of a \<^verbatim>\<open>Stomp\<close> object. \<open>protocol\<close> is the private \<^verbatim>\<open>__protocol\<close>
  behind the property \<^verbatim>\<open>_protocol\<close>, whose getter raises when it is not set.
  \<open>connectedSignal\<close> is \<open>None\<close> or the deferred that \<^verbatim>\<open>_waitConnected\<close> waits on.
\<close>

record stomp =
  protocol :: "ref option"
  connectedSignal :: "unit deferred option"
  connectedTimeout :: "real option"
  subscriptions :: "token \<rightharpoonup> subscription"
  effects :: "effect list"

definition Stomp_DEFAULT_ACK_MODE :: string where
  "Stomp_DEFAULT_ACK_MODE = ''auto''"

definition get_protocol :: "stomp \<Rightarrow> exn + ref" where
  "get_protocol st =
     (case protocol st of
        None \<Rightarrow> Inl (Exn StompConnectionError ''Not connected'')
      | Some p \<Rightarrow> Inr p)"

definition log_record :: "stomp \<Rightarrow> log_level \<Rightarrow> log_msg \<Rightarrow> stomp" where
  "log_record st level m = st\<lparr>effects := effects st @ [Log level m]\<rparr>"

definition protocol_send :: "stomp \<Rightarrow> ref \<Rightarrow> dict frame \<Rightarrow> stomp" where
  "protocol_send st p frame = st\<lparr>effects := effects st @ [Protocol_send p frame]\<rparr>"

subsection \<open>Commands\<close>

text \<open>
  \<^verbatim>\<open>disconnect(failure)\<close>: the protocol is asked to disconnect, and \<^verbatim>\<open>_protocol\<close> is
  cleared in the \<^verbatim>\<open>finally\<close> clause, also when the getter has raised.
\<close>

definition Stomp_disconnect :: "stomp \<Rightarrow> exn option \<Rightarrow> (exn + unit) \<times> stomp" where
  "Stomp_disconnect st failure =
     (let st1 = st\<lparr>effects := effects st @ [Disconnect_called failure]\<rparr>
      in case get_protocol st1 of
           Inl e \<Rightarrow> (Inl e, st1\<lparr>protocol := None\<rparr>)
         | Inr p \<Rightarrow>
             (Inr (), st1\<lparr>effects := effects st1 @ [Protocol_disconnect p failure],
                          protocol := None\<rparr>))"

text \<open>
  \<^verbatim>\<open>subscribe\<close>. \<open>session_subscribe\<close> is the frame and the token that
  \<^verbatim>\<open>self.session.subscribe(destination, headers, context)\<close> returns.
\<close>

definition Stomp_subscribe ::
  "stomp \<Rightarrow> (string \<Rightarrow> dict \<Rightarrow> dict frame \<times> token) \<Rightarrow> string \<Rightarrow> handler \<Rightarrow> dict \<Rightarrow> bool
     \<Rightarrow> string option \<Rightarrow> (exn + token) \<times> stomp" where
  "Stomp_subscribe st session_subscribe destination h hdrs ack errorDestination =
     (case get_protocol st of
        Inl e \<Rightarrow> (Inl e, st)
      | Inr p \<Rightarrow>
          (if h = NotCallable
           then (Inl (Exn ValueError ''Cannot subscribe (handler is missing)''), st)
           else (let (frame, tok) = session_subscribe destination hdrs;
                     mode = (case headers frame ACK_HEADER of
                               None \<Rightarrow> Stomp_DEFAULT_ACK_MODE | Some m \<Rightarrow> m);
                     frame1 = frame\<lparr>headers := (headers frame)(ACK_HEADER \<mapsto> mode)\<rparr>;
                     ack1 = (ack \<and> mode \<in> set CLIENT_ACK_MODES);
                     st1 = st\<lparr>subscriptions := (subscriptions st)(tok \<mapsto>
                             \<lparr>sub_destination = destination, sub_handler = h, sub_ack = ack1,
                              sub_errorDestination = errorDestination\<rparr>)\<rparr>
                 in (Inr tok, protocol_send st1 p frame1))))"

text \<open>
  \<^verbatim>\<open>unsubscribe(token, receipt)\<close>. \<open>session_unsubscribe\<close> is what
  \<^verbatim>\<open>self.session.unsubscribe(token, receipt)\<close> does: it raises or returns the frame.
  Popping a token that is not in \<^verbatim>\<open>_subscriptions\<close> raises \<^verbatim>\<open>KeyError\<close>, which is
  logged and raised again.
\<close>

definition Stomp_unsubscribe ::
  "stomp \<Rightarrow> token \<Rightarrow> (exn + dict frame) \<Rightarrow> (exn + unit) \<times> stomp" where
  "Stomp_unsubscribe st tok session_unsubscribe =
     (case get_protocol st of
        Inl e \<Rightarrow> (Inl e, st)
      | Inr p \<Rightarrow>
          (case session_unsubscribe of
             Inl e \<Rightarrow> (Inl e, st)
           | Inr frame \<Rightarrow>
               (case subscriptions st tok of
                  None \<Rightarrow>
                    (Inl (Exn KeyError (fst tok @ ''='' @ snd tok)),
                     log_record st WARNING (Cannot_unsubscribe tok))
                | Some s \<Rightarrow>
                    (Inr (), protocol_send (st\<lparr>subscriptions := (subscriptions st)(tok := None)\<rparr>)
                               p frame))))"

subsection \<open>Connecting\<close>

text \<open>
  The failover sequence is a finite run of candidates, each with the delay to sleep
  before it, after which the iterator either stops (\<^verbatim>\<open>StopIteration\<close>, the \<^verbatim>\<open>for\<close>
  loop ends) or raises. \<open>endpoint_connect i b\<close> is the outcome of the \<open>i\<close>-th attempt, at
  broker \<open>b\<close>: the exception raised, or the protocol object.
\<close>

datatype failover_end = StopIteration | Raises exn

definition sleep :: "stomp \<Rightarrow> real \<Rightarrow> stomp" where
  "sleep st delay =
     (if delay = 0 then st
      else st\<lparr>effects := effects st @ [Log DEBUG (Delaying delay), Sleep delay]\<rparr>)"

text \<open>
  \<^verbatim>\<open>_connectEndpoint\<close>. A failed attempt is logged as a warning and the loop goes on. A
  loop that ends without a connection returns nothing: the result is Python's \<^verbatim>\<open>None\<close>,
  here \<open>Inr None\<close>.
\<close>

fun Stomp_connectEndpoint ::
  "stomp \<Rightarrow> (nat \<Rightarrow> broker \<Rightarrow> exn + ref) \<Rightarrow> nat \<Rightarrow> (broker \<times> real) list \<Rightarrow> failover_end
     \<Rightarrow> (exn + ref option) \<times> stomp" where
  "Stomp_connectEndpoint st endpoint_connect i [] StopIteration = (Inr None, st)"
| "Stomp_connectEndpoint st endpoint_connect i [] (Raises e) = (Inl e, st)"
| "Stomp_connectEndpoint st endpoint_connect i ((b, delay) # rest) ending =
     (let st1 = log_record (sleep st delay) DEBUG (Connecting b)
      in case endpoint_connect i b of
           Inl e \<Rightarrow>
             Stomp_connectEndpoint (log_record st1 WARNING (Could_not_connect b e))
               endpoint_connect (Suc i) rest ending
         | Inr p \<Rightarrow> (Inr (Some p), st1))"

text \<open>
  \<^verbatim>\<open>_waitConnected\<close>: what the broker does after the \<^verbatim>\<open>CONNECT\<close> frame. It answers
  \<^verbatim>\<open>CONNECTED\<close>, or the wait is rejected (an \<^verbatim>\<open>ERROR\<close> frame, see \<open>Stomp_onError\<close>), or
  nothing arrives: then the signal is cancelled after \<^verbatim>\<open>_connectedTimeout\<close>, and with
  no timeout (\<^verbatim>\<open>None\<close> or 0) the wait never returns, which is the result \<open>None\<close>. The
  signal is cleared in the \<^verbatim>\<open>finally\<close> clause.
\<close>

datatype handshake = Connected | Rejected exn | Silent

definition Stomp_waitConnected :: "stomp \<Rightarrow> handshake \<Rightarrow> ((exn + unit) \<times> stomp) option" where
  "Stomp_waitConnected st hs =
     (let st1 = st\<lparr>connectedSignal := None\<rparr>
      in case hs of
           Connected \<Rightarrow> Some (Inr (), st1)
         | Rejected e \<Rightarrow> Some (Inl e, st1)
         | Silent \<Rightarrow>
             (if connectedTimeout st = None \<or> connectedTimeout st = Some 0 then None
              else Some (Inl (Exn CancelledError []), st1)))"

record replay_entry =
  re_destination :: string
  re_headers :: dict
  re_handler :: handler
  re_receipt :: "string option"
  re_errorDestination :: "string option"

text \<open>\<^verbatim>\<open>_replay\<close>: every subscription of \<^verbatim>\<open>self.session.replay()\<close> is subscribed again.\<close>

fun Stomp_replay ::
  "stomp \<Rightarrow> (string \<Rightarrow> dict \<Rightarrow> dict frame \<times> token) \<Rightarrow> replay_entry list
     \<Rightarrow> (exn + unit) \<times> stomp" where
  "Stomp_replay st session_subscribe [] = (Inr (), st)"
| "Stomp_replay st session_subscribe (r # rs) =
     (case Stomp_subscribe (log_record st DEBUG (Replaying (re_headers r))) session_subscribe
             (re_destination r) (re_handler r) (re_headers r) True (re_errorDestination r) of
        (Inl e, st1) \<Rightarrow> (Inl e, st1)
      | (Inr tok, st1) \<Rightarrow> Stomp_replay st1 session_subscribe rs)"

text \<open>
  \<^verbatim>\<open>connect\<close>, for one call (the decorator \<^verbatim>\<open>exclusive\<close>, which is not among the
  sources, only rejects a call made while another is running). \<open>frame\<close> is the
  \<^verbatim>\<open>CONNECT\<close> frame built by the session. Calling \<^verbatim>\<open>send\<close> on the \<^verbatim>\<open>None\<close> that
  \<^verbatim>\<open>_connectEndpoint\<close> may return is an \<^verbatim>\<open>AttributeError\<close>; the handler of the second
  \<^verbatim>\<open>try\<close> logs it and calls \<^verbatim>\<open>loseConnection\<close> on the same \<^verbatim>\<open>None\<close>, and that second
  \<^verbatim>\<open>AttributeError\<close> is what leaves \<^verbatim>\<open>connect\<close>.
\<close>

definition Stomp_connect ::
  "stomp \<Rightarrow> dict frame \<Rightarrow> (nat \<Rightarrow> broker \<Rightarrow> exn + ref) \<Rightarrow> (broker \<times> real) list \<Rightarrow> failover_end
     \<Rightarrow> handshake \<Rightarrow> (string \<Rightarrow> dict \<Rightarrow> dict frame \<times> token) \<Rightarrow> replay_entry list
     \<Rightarrow> ((exn + unit) \<times> stomp) option" where
  "Stomp_connect st frame endpoint_connect failover ending hs session_subscribe replay =
     (case get_protocol st of
        Inr p \<Rightarrow> Some (Inl (Exn StompConnectionError ''Already connected''), st)
      | Inl not_connected \<Rightarrow>
          (case Stomp_connectEndpoint st endpoint_connect 0 failover ending of
             (Inl e, st1) \<Rightarrow> Some (Inl e, log_record st1 ERROR Endpoint_connect_failed)
           | (Inr None, st1) \<Rightarrow>
               Some (Inl (Exn AttributeError
                       ''NoneType object has no attribute loseConnection''),
                     log_record st1 ERROR (Session_connect_failed
                       (Exn AttributeError ''NoneType object has no attribute send'')))
           | (Inr (Some p), st1) \<Rightarrow>
               (case Stomp_waitConnected
                       ((protocol_send st1 p frame)\<lparr>connectedSignal := Some Pending\<rparr>) hs of
                  None \<Rightarrow> None
                | Some (Inl e, st2) \<Rightarrow>
                    Some (Inl e,
                      (log_record st2 ERROR (Session_connect_failed e))
                        \<lparr>effects := effects (log_record st2 ERROR (Session_connect_failed e))
                           @ [Protocol_loseConnection p]\<rparr>)
                | Some (Inr u, st2) \<Rightarrow>
                    Some (Stomp_replay (st2\<lparr>protocol := Some p\<rparr>) session_subscribe replay))))"

subsection \<open>Frames received\<close>

definition UNEXPECTED_ACK :: string where
  "UNEXPECTED_ACK = ''Unexpected ACK received for message-id''"

text \<open>
  \<^verbatim>\<open>_onError\<close>. While the handshake is awaited the signal is errbacked (a signal that
  has been called already raises \<^verbatim>\<open>AlreadyCalledError\<close>). Otherwise the frame of the
  broker quirk is logged only, and any other frame is a call of \<^verbatim>\<open>disconnect\<close>, whose
  deferred is dropped.
\<close>

definition Stomp_onError :: "stomp \<Rightarrow> dict frame \<Rightarrow> (exn + unit) \<times> stomp" where
  "Stomp_onError st frame =
     (case connectedSignal st of
        Some d \<Rightarrow>
          (if called d then (Inl (Exn AlreadyCalledError []), st)
           else (Inr (), st\<lparr>connectedSignal := Some (Failed (Exn StompProtocolError
                   (''While trying to connect, received '' @ info frame)))\<rparr>))
      | None \<Rightarrow>
          (if str_in UNEXPECTED_ACK (case headers frame ''message'' of None \<Rightarrow> [] | Some m \<Rightarrow> m)
           then (Inr (), log_record st DEBUG AMQ_no_client_individual)
           else (Inr (), snd (Stomp_disconnect st
                   (Some (Exn StompProtocolError (''Received '' @ info frame)))))))"

subsection \<open>What a run of the client shows\<close>

text \<open>
  The frames handed to a protocol object, the warnings logged and the calls of
  \<^verbatim>\<open>disconnect\<close>, each in order, read off the effects.
\<close>

definition sent :: "stomp \<Rightarrow> (ref \<times> dict frame) list" where
  "sent st = concat (map (\<lambda>e. case e of Protocol_send p f \<Rightarrow> [(p, f)] | _ \<Rightarrow> []) (effects st))"

definition warnings :: "stomp \<Rightarrow> log_msg list" where
  "warnings st =
     concat (map (\<lambda>e. case e of Log lv m \<Rightarrow> (if lv = WARNING then [m] else []) | _ \<Rightarrow> [])
       (effects st))"

definition disconnects :: "stomp \<Rightarrow> exn option list" where
  "disconnects st =
     concat (map (\<lambda>e. case e of Disconnect_called f \<Rightarrow> [f] | _ \<Rightarrow> []) (effects st))"

text \<open>
  The warnings of a connect attempt in which every candidate fails: one per candidate,
  with the exception of its attempt. \<open>i\<close> is the number of the first attempt.
\<close>

fun candidate_warnings ::
  "(nat \<Rightarrow> broker \<Rightarrow> exn + ref) \<Rightarrow> nat \<Rightarrow> (broker \<times> real) list \<Rightarrow> log_msg list" where
  "candidate_warnings endpoint_connect i [] = []"
| "candidate_warnings endpoint_connect i ((b, delay) # rest) =
     (case endpoint_connect i b of
        Inl e \<Rightarrow> Could_not_connect b e # candidate_warnings endpoint_connect (Suc i) rest
      | Inr p \<Rightarrow> [])"

fun all_fail :: "(nat \<Rightarrow> broker \<Rightarrow> exn + ref) \<Rightarrow> nat \<Rightarrow> (broker \<times> real) list \<Rightarrow> bool" where
  "all_fail endpoint_connect i [] = True"
| "all_fail endpoint_connect i ((b, delay) # rest) =
     (case endpoint_connect i b of
        Inl e \<Rightarrow> all_fail endpoint_connect (Suc i) rest
      | Inr p \<Rightarrow> False)"

section \<open>Properties of the correlation registry\<close>

lemma pending_store_upd: "(\<lambda>r. Pending)(w := Pending) = (\<lambda>r. Pending)"
  by (simp add: fun_eq_iff)

lemma test_dict_interface_passes: "test_dict_interface k = replicate 7 True"
  by (simp add: test_dict_interface_def InFlightOperations_def Deferred_def setitem_def
      getitem_def get_default_def pop_def present_def eval_nat_numeral)

lemma test_timeout_passes: "test_timeout = [True, True, True]"
  by (simp add: test_timeout_def InFlightOperations_def scope_enter_def create_def Deferred_def
      setitem_def wait_def scope_exit_def present_def called_def)

lemma create_present:
  "create reg k = Inr (w, reg1) \<Longrightarrow> waiting reg1 k = Some w \<and> deferreds reg1 w = Pending"
  by (auto simp: create_def Deferred_def setitem_def split: if_splits)

lemma create_absent:
  "waiting reg k = None \<Longrightarrow> \<exists>w reg1. create reg k = Inr (w, reg1) \<and> waiting reg1 k = Some w"
  by (simp add: create_def Deferred_def setitem_def dom_def)

lemma resolve_absent: "waiting (resolve reg k v) k = None"
  by (simp add: resolve_def split: option.splits)

lemma reject_absent: "waiting (reject reg k e) k = None"
  by (simp add: reject_def split: option.splits)

text \<open>
  C1. While a live entry for a key exists, registering the key again fails: \<open>create\<close>
  and the item assignment both raise \<^verbatim>\<open>KeyError\<close>. A call that raises returns no
  registry, so the registry stays the one that holds the first handle. Once the entry is
  completed and removed (by \<open>resolve\<close>, by \<open>reject\<close>, or popped as in the test), the key
  is absent and a fresh registration of it succeeds.
\<close>

theorem registry_exclusive_registration:
  assumes "create reg k = Inr (w, reg1)"
  shows "waiting reg1 k = Some w
    \<and> (\<exists>e. create reg1 k = Inl e \<and> cls e = KeyError)
    \<and> (\<exists>e. setitem reg1 k w' = Inl e \<and> cls e = KeyError)
    \<and> \<not> present (resolve reg1 k v) k
    \<and> \<not> present (reject reg1 k err) k
    \<and> (\<exists>w2 reg2. create (resolve reg1 k v) k = Inr (w2, reg2) \<and> present reg2 k)
    \<and> (\<exists>w2 reg2. create (reject reg1 k err) k = Inr (w2, reg2) \<and> present reg2 k)
    \<and> (\<exists>reg3. pop reg1 k = Inr (w, reg3) \<and> \<not> present reg3 k
           \<and> (\<exists>w2 reg2. create reg3 k = Inr (w2, reg2) \<and> present reg2 k))"
proof -
  from assms have p: "waiting reg1 k = Some w"
    by (simp add: create_present)
  have a: "\<exists>e. create reg1 k = Inl e \<and> cls e = KeyError"
    using p by (simp add: create_def Deferred_def setitem_def dom_def)
  have b: "\<exists>e. setitem reg1 k w' = Inl e \<and> cls e = KeyError"
    using p by (simp add: setitem_def dom_def)
  have c: "\<not> present (resolve reg1 k v) k"
    by (simp add: present_def resolve_absent)
  have d: "\<not> present (reject reg1 k err) k"
    by (simp add: present_def reject_absent)
  have e: "\<exists>w2 reg2. create (resolve reg1 k v) k = Inr (w2, reg2) \<and> present reg2 k"
    using create_absent [OF resolve_absent, of reg1 k v] by (auto simp: present_def)
  have f: "\<exists>w2 reg2. create (reject reg1 k err) k = Inr (w2, reg2) \<and> present reg2 k"
    using create_absent [OF reject_absent, of reg1 k err] by (auto simp: present_def)
  have "waiting (reg1\<lparr>waiting := (waiting reg1)(k := None)\<rparr>) k = None" by simp
  from create_absent [OF this]
  have g: "\<exists>reg3. pop reg1 k = Inr (w, reg3) \<and> \<not> present reg3 k
           \<and> (\<exists>w2 reg2. create reg3 k = Inr (w2, reg2) \<and> present reg2 k)"
    using p by (auto simp: pop_def present_def)
  from p a b c d e f g show ?thesis by blast
qed

theorem registry_exclusive_registration_witness:
  "create (InFlightOperations :: (int, unit) ops) 1
     = Inr (0, InFlightOperations\<lparr>waiting := [1 \<mapsto> 0], next_ref := 1\<rparr>)
   \<and> (\<exists>e. create (InFlightOperations\<lparr>waiting := [1 \<mapsto> 0], next_ref := 1\<rparr> :: (int, unit) ops) 1
            = Inl e \<and> cls e = KeyError)
   \<and> \<not> present (resolve (InFlightOperations\<lparr>waiting := [1 \<mapsto> 0], next_ref := 1\<rparr> :: (int, unit) ops)
          1 None) 1"
proof -
  have h: "create (InFlightOperations :: (int, unit) ops) 1
     = Inr (0, InFlightOperations\<lparr>waiting := [1 \<mapsto> 0], next_ref := 1\<rparr>)"
    by (simp add: create_def Deferred_def setitem_def InFlightOperations_def pending_store_upd)
  from registry_exclusive_registration [OF h, of undefined None undefined] h
  show ?thesis by blast
qed

lemma spec_wording_against_test_timeout:
  "wait_and_remove (InFlightOperations\<lparr>waiting := [None \<mapsto> 0], next_ref := 1\<rparr>
        :: (unit option, unit) ops) None 0 (Some 0) (Exn RuntimeError ''hi'') None
     = Some (Inl (Exn RuntimeError ''hi''),
         InFlightOperations\<lparr>waiting := Map.empty, next_ref := 1,
           deferreds := (\<lambda>r. Pending)(0 := Failed (Exn RuntimeError ''hi''))\<rparr>)"
  by (simp add: wait_and_remove_def wait_def InFlightOperations_def)

text \<open>
  C4 as stated fails on the scenario of \<^verbatim>\<open>test_timeout\<close>: the handle of key
  \<^verbatim>\<open>None\<close> is pending, the wait with timeout 0 raises the error given, and the key is
  still present in the registry after the expiry.
\<close>

theorem wait_timeout_entry_still_present:
  "scope_enter (InFlightOperations :: (unit option, unit) ops) None
     = Inr (0, InFlightOperations\<lparr>waiting := [None \<mapsto> 0], next_ref := 1\<rparr>)
   \<and> wait (InFlightOperations\<lparr>waiting := [None \<mapsto> 0], next_ref := 1\<rparr>
        :: (unit option, unit) ops) 0 (Some 0) (Exn RuntimeError ''hi'') None
     = Some (Inl (Exn RuntimeError ''hi''),
         InFlightOperations\<lparr>waiting := [None \<mapsto> 0], next_ref := 1,
           deferreds := (\<lambda>r. Pending)(0 := Failed (Exn RuntimeError ''hi''))\<rparr>)
   \<and> present (InFlightOperations\<lparr>waiting := [None \<mapsto> 0], next_ref := 1,
           deferreds := (\<lambda>r. Pending)(0 := Failed (Exn RuntimeError ''hi''))\<rparr>
        :: (unit option, unit) ops) None"
  by (simp add: scope_enter_def create_def Deferred_def setitem_def wait_def present_def
      InFlightOperations_def pending_store_upd)

text \<open>
  C4, amended. For every pending handle \<open>w\<close> registered under a key \<open>k\<close>, waiting on it
  with timeout 0 and the error \<open>fail\<close>, nobody else completing the handle first, fails
  with exactly \<open>fail\<close> and rejects the handle with it. The entry of \<open>k\<close> is still present
  right after the expiry; it is removed when the scope that acquired it exits, whether
  the block ends normally or raises, so it is not left dangling.
\<close>

theorem wait_timeout_rejects_then_scope_removes:
  assumes "waiting reg k = Some w" and "deferreds reg w = Pending"
  shows "\<exists>reg2. wait reg w (Some 0) fail None = Some (Inl fail, reg2)
     \<and> deferreds reg2 w = Failed fail
     \<and> waiting reg2 k = Some w
     \<and> \<not> present (snd (scope_exit reg2 k w raised)) k
     \<and> deferreds (snd (scope_exit reg2 k w raised)) w = Failed fail"
  using assms by (simp add: wait_def scope_exit_def present_def called_def Let_def)

theorem wait_timeout_rejects_then_scope_removes_witness:
  "waiting (InFlightOperations\<lparr>waiting := [None \<mapsto> 0], next_ref := 1\<rparr>
        :: (unit option, unit) ops) None = Some 0
   \<and> deferreds (InFlightOperations\<lparr>waiting := [None \<mapsto> 0], next_ref := 1\<rparr>
        :: (unit option, unit) ops) 0 = Pending
   \<and> (\<exists>reg2. wait (InFlightOperations\<lparr>waiting := [None \<mapsto> 0], next_ref := 1\<rparr>
        :: (unit option, unit) ops) 0 (Some 0) (Exn RuntimeError ''hi'') None
          = Some (Inl (Exn RuntimeError ''hi''), reg2)
        \<and> waiting reg2 None = Some 0
        \<and> \<not> present (snd (scope_exit reg2 None 0 None)) None)"
proof -
  have a: "waiting (InFlightOperations\<lparr>waiting := [None \<mapsto> 0], next_ref := 1\<rparr>
        :: (unit option, unit) ops) None = Some 0"
    by simp
  have b: "deferreds (InFlightOperations\<lparr>waiting := [None \<mapsto> 0], next_ref := 1\<rparr>
        :: (unit option, unit) ops) 0 = Pending"
    by (simp add: InFlightOperations_def)
  from wait_timeout_rejects_then_scope_removes [OF a b, of "Exn RuntimeError ''hi''" None] a b
  show ?thesis by blast
qed

section \<open>Properties of the listeners\<close>

subsection \<open>The graceful-disconnect listener\<close>
















subsection \<open>The subscription listener\<close>

lemma onSubscribe_captured:
  "sl_headers l \<noteq> None \<Longrightarrow> SubscriptionListener_onSubscribe l hp frame ctx = (l, hp)"
  by (simp add: SubscriptionListener_onSubscribe_def)

lemma onSubscribes_captured:
  "sl_headers l \<noteq> None \<Longrightarrow> onSubscribes l hp later = (l, hp)"
  by (induction later) (auto simp: onSubscribe_captured)

text \<open>
  C7. The first \<^verbatim>\<open>onSubscribe\<close> with the listener's own context captures the header
  dictionary of its frame, with the ack mode defaulted. Every later invocation, whatever
  its frame and context, changes neither the listener (the reference captured) nor the
  store (the content of any dictionary, the captured one included).
\<close>

theorem onSubscribe_first_call_wins:
  assumes "sl_headers l = None"
    and "SubscriptionListener_onSubscribe l hp frame (sl_self l) = (l1, hp1)"
  shows "sl_headers l1 = Some (headers frame)
    \<and> hp1 (headers frame) ACK_HEADER
        = Some (case hp (headers frame) ACK_HEADER of None \<Rightarrow> DEFAULT_ACK_MODE | Some m \<Rightarrow> m)
    \<and> SubscriptionListener_onSubscribe l1 hp1 frame' ctx' = (l1, hp1)
    \<and> onSubscribes l1 hp1 later = (l1, hp1)"
proof -
  from assms have h: "sl_headers l1 = Some (headers frame)"
    by (auto simp: SubscriptionListener_onSubscribe_def)
  from assms have a: "hp1 (headers frame) ACK_HEADER
        = Some (case hp (headers frame) ACK_HEADER of None \<Rightarrow> DEFAULT_ACK_MODE | Some m \<Rightarrow> m)"
    by (auto simp: SubscriptionListener_onSubscribe_def setdefault_def split: option.splits)
  from h have n: "sl_headers l1 \<noteq> None" by simp
  from h a onSubscribe_captured [OF n] onSubscribes_captured [OF n]
  show ?thesis by simp
qed

theorem onSubscribe_first_call_wins_witness:
  "sl_headers (SubscriptionListener 7 True None) = None
   \<and> SubscriptionListener_onSubscribe (SubscriptionListener 7 True None)
        (\<lambda>r. Map.empty) \<lparr>command = ''SUBSCRIBE'', headers = 3, body = [], info = []\<rparr> 7
      = ((SubscriptionListener 7 True None)\<lparr>sl_headers := Some 3\<rparr>,
         (\<lambda>r. Map.empty)(3 := [ACK_HEADER \<mapsto> DEFAULT_ACK_MODE]))
   \<and> onSubscribes ((SubscriptionListener 7 True None)\<lparr>sl_headers := Some 3\<rparr>)
        ((\<lambda>r. Map.empty)(3 := [ACK_HEADER \<mapsto> DEFAULT_ACK_MODE]))
        [(\<lparr>command = ''SUBSCRIBE'', headers = 4, body = [], info = []\<rparr>, 7)]
      = ((SubscriptionListener 7 True None)\<lparr>sl_headers := Some 3\<rparr>,
         (\<lambda>r. Map.empty)(3 := [ACK_HEADER \<mapsto> DEFAULT_ACK_MODE]))"
proof -
  have a: "sl_headers (SubscriptionListener 7 True None) = None"
    by (simp add: SubscriptionListener_def)
  have b: "SubscriptionListener_onSubscribe (SubscriptionListener 7 True None)
        (\<lambda>r. Map.empty) \<lparr>command = ''SUBSCRIBE'', headers = 3, body = [], info = []\<rparr>
        (sl_self (SubscriptionListener 7 True None))
      = ((SubscriptionListener 7 True None)\<lparr>sl_headers := Some 3\<rparr>,
         (\<lambda>r. Map.empty)(3 := [ACK_HEADER \<mapsto> DEFAULT_ACK_MODE]))"
    by (simp add: SubscriptionListener_onSubscribe_def SubscriptionListener_def setdefault_def)
  have c: "sl_self (SubscriptionListener 7 True None) = 7"
    by (simp add: SubscriptionListener_def)
  from onSubscribe_first_call_wins [OF a b] a b c show ?thesis by simp
qed

lemma onMessage_finally_unsubscribed:
  "sl_ack l \<Longrightarrow> sl_headers l = None \<Longrightarrow>
   onMessage_finally l hp conn reg frame w oc
     = (Some (Exn TypeError ''NoneType object is not subscriptable''), conn, reg)"
  by (simp add: onMessage_finally_def)

lemma scope_enter_absent:
  "\<not> present reg k \<Longrightarrow> \<exists>w reg1. scope_enter reg k = Inr (w, reg1)"
  using create_absent [of reg k] by (auto simp: scope_enter_def present_def)

lemma scope_exit_absent: "\<not> present (snd (scope_exit reg k w raised)) k"
  by (simp add: scope_exit_def present_def Let_def)

lemma scope_exit_raised: "fst (scope_exit reg k w raised) = raised"
  by (simp add: scope_exit_def Let_def)

lemma onMessage_unsubscribed_in_scope:
  assumes "sl_ack l" and "sl_headers l = None"
    and "hp (headers frame) MESSAGE_ID_HEADER = Some mid"
    and "scope_enter (sl_messages l) mid = Inr (w, reg1)"
  shows "SubscriptionListener_onMessage l hp conn frame (sl_self l) oc
     = (Inl (Exn TypeError ''NoneType object is not subscriptable''),
        l\<lparr>sl_messages := snd (scope_exit reg1 mid w
             (Some (Exn TypeError ''NoneType object is not subscriptable'')))\<rparr>,
        conn)"
  using assms
  by (simp add: SubscriptionListener_onMessage_def onMessage_finally_unsubscribed
      split_beta scope_exit_raised Let_def)

text \<open>
  C10. A listener built with ack enabled whose \<^verbatim>\<open>onSubscribe\<close> never ran (no headers
  captured) cannot handle a message of its own context: \<^verbatim>\<open>onMessage\<close> raises, whatever
  the handler and the failure hook do, and no acknowledgement is sent. When the frame
  has a message id that is not in flight, so that the handler runs, the exception is the
  \<^verbatim>\<open>TypeError\<close> of the \<^verbatim>\<open>finally\<close> block indexing the absent headers, and the entry
  of the message is removed all the same.
\<close>

theorem onMessage_before_onSubscribe_raises:
  assumes "sl_ack l" and "sl_headers l = None"
  shows "(\<exists>e. fst (SubscriptionListener_onMessage l hp conn frame (sl_self l) oc) = Inl e)
    \<and> calls (snd (snd (SubscriptionListener_onMessage l hp conn frame (sl_self l) oc)))
        = calls conn
    \<and> (\<forall>mid. hp (headers frame) MESSAGE_ID_HEADER = Some mid \<and> \<not> present (sl_messages l) mid
         \<longrightarrow> fst (SubscriptionListener_onMessage l hp conn frame (sl_self l) oc)
               = Inl (Exn TypeError ''NoneType object is not subscriptable'')
             \<and> \<not> present (sl_messages
                   (fst (snd (SubscriptionListener_onMessage l hp conn frame (sl_self l) oc))))
                   mid)"
proof (cases "hp (headers frame) MESSAGE_ID_HEADER")
  case None
  then show ?thesis
    by (simp add: SubscriptionListener_onMessage_def)
next
  case (Some mid)
  show ?thesis
  proof (cases "scope_enter (sl_messages l) mid")
    case (Inl e)
    then have "present (sl_messages l) mid"
      using scope_enter_absent [of "sl_messages l" mid] by auto
    with Some Inl show ?thesis
      by (simp add: SubscriptionListener_onMessage_def)
  next
    case (Inr p)
    then obtain w reg1 where "scope_enter (sl_messages l) mid = Inr (w, reg1)"
      by (cases p) simp
    from onMessage_unsubscribed_in_scope
      [where l = l and hp = hp and frame = frame and mid = mid and w = w and ?reg1.0 = reg1
         and conn = conn and oc = oc, OF assms Some this] Some
    show ?thesis by (simp add: scope_exit_absent)
  qed
qed

theorem onMessage_before_onSubscribe_raises_witness:
  "sl_ack (SubscriptionListener 7 True None)
   \<and> sl_headers (SubscriptionListener 7 True None) = None
   \<and> fst (SubscriptionListener_onMessage (SubscriptionListener 7 True None)
        (\<lambda>r. [MESSAGE_ID_HEADER \<mapsto> ''m1''])
        \<lparr>session = \<lparr>clientHeartBeat = 0, serverHeartBeat = 0, lastSent = 0, lastReceived = 0\<rparr>,
          calls = [], disconnected = Pending\<rparr>
        \<lparr>command = ''MESSAGE'', headers = 3, body = [], info = []\<rparr> 7
        \<lparr>handler_raises = None, onMessageFailed_raises = None, ack_raises = None\<rparr>)
      = Inl (Exn TypeError ''NoneType object is not subscriptable'')"
proof -
  have a: "sl_ack (SubscriptionListener 7 True None)"
    and b: "sl_headers (SubscriptionListener 7 True None) = None"
    and c: "sl_self (SubscriptionListener 7 True None) = 7"
    and d: "\<not> present (sl_messages (SubscriptionListener 7 True None)) ''m1''"
    by (simp_all add: SubscriptionListener_def InFlightOperations_def present_def)
  from onMessage_before_onSubscribe_raises [OF a b,
      of "\<lambda>r. [MESSAGE_ID_HEADER \<mapsto> ''m1'']"
         "\<lparr>session = \<lparr>clientHeartBeat = 0, serverHeartBeat = 0, lastSent = 0, lastReceived = 0\<rparr>,
           calls = [], disconnected = Pending\<rparr>"
         "\<lparr>command = ''MESSAGE'', headers = 3, body = [], info = []\<rparr>"
         "\<lparr>handler_raises = None, onMessageFailed_raises = None, ack_raises = None\<rparr>"]
    a b c d
  show ?thesis by simp
qed

lemma onMessage_after_onSubscribe_completes:
  assumes "sl_headers l = Some h" and "hp h ACK_HEADER = Some mode"
    and "hp (headers frame) MESSAGE_ID_HEADER = Some mid"
    and "\<not> present (sl_messages l) mid"
    and "handler_raises oc = None" and "ack_raises oc = None"
  shows "fst (SubscriptionListener_onMessage l hp conn frame (sl_self l) oc) = Inr ()"
proof -
  from scope_enter_absent [OF assms(4)] obtain w reg1
    where "scope_enter (sl_messages l) mid = Inr (w, reg1)" by blast
  with assms show ?thesis
    by (simp add: SubscriptionListener_onMessage_def onMessage_finally_def split_beta
        scope_exit_raised Let_def)
qed

subsection \<open>The heart-beat listener\<close>

lemma beatRemaining_timers:
  "HeartBeatListener_beatRemaining (l\<lparr>hb_heartBeats := x\<rparr>) s w t
     = HeartBeatListener_beatRemaining l s w t"
  by (simp add: HeartBeatListener_beatRemaining_def Let_def)

lemma rearm_bound:
  "ts \<le> t2 \<Longrightarrow> 0 \<le> a \<Longrightarrow> max (a / 1000 - (t2 - ts)) 0 \<le> a / (1000 :: real)"
  by (simp add: max_def)

text \<open>
  C2 as stated fails, on the spec's own figures: outbound period 1000 ms, threshold 0.8,
  last frame sent at time 0, the scheduler firing at time 1 with no time passing during
  the call. One heart-beat is sent and recorded as sent at time 1, and the next check is
  scheduled 0.8 s later, whereas the full period is 1 s.
\<close>

theorem client_beat_rearms_after_threshold_fraction:
  "HeartBeatListener_beat (HeartBeatListener DEFAULT_THRESHOLDS)
      (Some (\<lparr>session = \<lparr>clientHeartBeat = 1000, serverHeartBeat = 0, lastSent = 0,
                         lastReceived = 0\<rparr>,
              calls = [], disconnected = Pending\<rparr> :: unit connection))
      client (1, 1, 1)
    = (\<lparr>hb_thresholds = DEFAULT_THRESHOLDS, hb_heartBeats = [client \<mapsto> 4 / 5]\<rparr>,
       Some \<lparr>session = \<lparr>clientHeartBeat = 1000, serverHeartBeat = 0, lastSent = 1,
                        lastReceived = 0\<rparr>,
             calls = [SendFrame_beat], disconnected = Pending\<rparr>)
   \<and> (4 / 5 :: real) \<noteq> real_of_int 1000 / 1000"
  by (simp add: HeartBeatListener_beat_def HeartBeatListener_def
      HeartBeatListener_beatRemaining_def DEFAULT_THRESHOLDS_def sendFrame_beat_def
      HeartBeatListener_onSend_def session_sent_def)

text \<open>
  C2, amended. For a session with a non-zero client heart-beat period, when the scheduler
  fires for the outbound direction and the remaining time computed is 0, it sends exactly
  one heart-beat frame, which is recorded as outbound activity (at the time \<open>ts\<close> of the
  send), and schedules the next outbound check after the remaining time computed anew:
  threshold times period (in seconds) less the time gone by since the send, and 0 at
  least. With the clock not running backwards and a non-negative threshold that is at
  most the threshold's share of the period: 0.8 of it with the default threshold, not
  the full period. The inbound timer is left as it was.
\<close>

theorem client_beat_sends_once_and_rearms:
  assumes "clientHeartBeat (session conn) \<noteq> 0"
    and "HeartBeatListener_beatRemaining l (session conn) client t1 = 0"
  shows "\<exists>l' conn'.
      HeartBeatListener_beat l (Some conn) client (t1, ts, t2) = (l', Some conn')
    \<and> calls conn' = calls conn @ [SendFrame_beat]
    \<and> lastSent (session conn') = ts
    \<and> hb_heartBeats l' client
        = Some (max (hb_thresholds l client * real_of_int (clientHeartBeat (session conn)) / 1000
                     - (t2 - ts)) 0)
    \<and> hb_heartBeats l' server = hb_heartBeats l server
    \<and> (ts \<le> t2 \<and> 0 \<le> hb_thresholds l client * real_of_int (clientHeartBeat (session conn))
        \<longrightarrow> the (hb_heartBeats l' client)
            \<le> hb_thresholds l client * real_of_int (clientHeartBeat (session conn)) / 1000)"
proof -
  let ?l1 = "l\<lparr>hb_heartBeats := (hb_heartBeats l)(client := None)\<rparr>"
  let ?a = "hb_thresholds l client * real_of_int (clientHeartBeat (session conn))"
  let ?d = "max (?a / 1000 - (t2 - ts)) 0"
  have s: "session (sendFrame_beat conn ts) = (session conn)\<lparr>lastSent := ts\<rparr>"
    and c: "calls (sendFrame_beat conn ts) = calls conn @ [SendFrame_beat]"
    by (simp_all add: sendFrame_beat_def HeartBeatListener_onSend_def session_sent_def)
  have r: "HeartBeatListener_beatRemaining l (session (sendFrame_beat conn ts)) client t2 = ?d"
    using assms(1) by (simp add: s HeartBeatListener_beatRemaining_def Let_def)
  have b: "HeartBeatListener_beat l (Some conn) client (t1, ts, t2)
      = (?l1\<lparr>hb_heartBeats := (hb_heartBeats ?l1)(client \<mapsto> ?d)\<rparr>,
         Some (sendFrame_beat conn ts))"
    using assms(2) r by (simp add: HeartBeatListener_beat_def beatRemaining_timers Let_def)
  have d: "ts \<le> t2 \<and> 0 \<le> ?a \<longrightarrow> ?d \<le> ?a / 1000"
    using rearm_bound [of ts t2 ?a] by blast
  have "hb_heartBeats (?l1\<lparr>hb_heartBeats := (hb_heartBeats ?l1)(client \<mapsto> ?d)\<rparr>) client
      = Some ?d"
    and "hb_heartBeats (?l1\<lparr>hb_heartBeats := (hb_heartBeats ?l1)(client \<mapsto> ?d)\<rparr>) server
      = hb_heartBeats l server"
    and "lastSent (session (sendFrame_beat conn ts)) = ts"
    by (simp_all add: s)
  with b c d show ?thesis
    by (metis option.sel)
qed

theorem client_beat_sends_once_and_rearms_witness:
  "clientHeartBeat (session (\<lparr>session = \<lparr>clientHeartBeat = 1000, serverHeartBeat = 0,
        lastSent = 0, lastReceived = 0\<rparr>, calls = [], disconnected = Pending\<rparr> :: unit connection))
     \<noteq> 0
   \<and> HeartBeatListener_beatRemaining (HeartBeatListener DEFAULT_THRESHOLDS)
       \<lparr>clientHeartBeat = 1000, serverHeartBeat = 0, lastSent = 0, lastReceived = 0\<rparr> client 1 = 0
   \<and> (\<exists>l' conn'.
        HeartBeatListener_beat (HeartBeatListener DEFAULT_THRESHOLDS)
          (Some (\<lparr>session = \<lparr>clientHeartBeat = 1000, serverHeartBeat = 0, lastSent = 0,
             lastReceived = 0\<rparr>, calls = [], disconnected = Pending\<rparr> :: unit connection))
          client (1, 1, 1) = (l', Some conn')
        \<and> calls conn' = [SendFrame_beat]
        \<and> lastSent (session conn') = 1
        \<and> hb_heartBeats l' client = Some (4 / 5))"
proof -
  let ?c = "\<lparr>session = \<lparr>clientHeartBeat = 1000, serverHeartBeat = 0,
        lastSent = 0, lastReceived = 0\<rparr>, calls = [], disconnected = Pending\<rparr> :: unit connection"
  have a: "clientHeartBeat (session ?c) \<noteq> 0" by simp
  have b: "HeartBeatListener_beatRemaining (HeartBeatListener DEFAULT_THRESHOLDS)
       (session ?c) client 1 = 0"
    by (simp add: HeartBeatListener_beatRemaining_def HeartBeatListener_def
        DEFAULT_THRESHOLDS_def)
  have t: "hb_thresholds (HeartBeatListener DEFAULT_THRESHOLDS) client = 4 / 5"
    by (simp add: HeartBeatListener_def DEFAULT_THRESHOLDS_def)
  from client_beat_sends_once_and_rearms [OF a b, of 1 1] obtain l' conn' where
    "HeartBeatListener_beat (HeartBeatListener DEFAULT_THRESHOLDS) (Some ?c) client (1, 1, 1)
       = (l', Some conn')"
    "calls conn' = calls ?c @ [SendFrame_beat]" "lastSent (session conn') = 1"
    "hb_heartBeats l' client
       = Some (max (hb_thresholds (HeartBeatListener DEFAULT_THRESHOLDS) client
                     * real_of_int (clientHeartBeat (session ?c)) / 1000 - (1 - 1)) 0)"
    by blast
  with a b t show ?thesis by simp
qed

lemma beat_connected:
  "\<exists>l' conn'. HeartBeatListener_beat l (Some conn) w clock = (l', Some conn')"
  by (cases clock, cases w) (simp_all add: HeartBeatListener_beat_def Let_def)

lemma beat_client_keeps_server:
  "HeartBeatListener_beat l (Some conn) client clock = (l', Some conn') \<Longrightarrow>
   hb_heartBeats l' server = hb_heartBeats l server \<and> timeouts conn' = timeouts conn"
  by (cases clock)
    (auto simp: HeartBeatListener_beat_def Let_def timeouts_def sendFrame_beat_def
       HeartBeatListener_onSend_def session_sent_def split: if_splits)

lemma hb_step_server_unarmed:
  assumes "hb_heartBeats (fst st) server = None"
  shows "hb_heartBeats (fst (hb_step st ev)) server = None
       \<and> timeouts (snd (hb_step st ev)) = timeouts (snd st)"
proof (cases st)
  case (Pair l conn)
  with assms have u: "hb_heartBeats l server = None" by simp
  show ?thesis
  proof (cases ev)
    case (Fires w clock)
    show ?thesis
    proof (cases w)
      case client
      from beat_connected [of l conn client clock] obtain l' conn'
        where b: "HeartBeatListener_beat l (Some conn) client clock = (l', Some conn')"
        by blast
      from beat_client_keeps_server [OF b] u b Pair Fires client
      show ?thesis by (simp add: hb_step_def)
    next
      case server
      with u Pair Fires show ?thesis by (simp add: hb_step_def)
    qed
  next
    case (FrameReceived t)
    with u Pair show ?thesis
      by (simp add: hb_step_def HeartBeatListener_onFrame_def session_received_def timeouts_def)
  next
    case (FrameSent t)
    with u Pair show ?thesis
      by (simp add: hb_step_def HeartBeatListener_onSend_def session_sent_def timeouts_def)
  next
    case ConnectionLost
    with u Pair show ?thesis
      by (simp add: hb_step_def HeartBeatListener_beats_def HeartBeatListener_beat_def
          timeouts_def)
  qed
qed

lemma hb_run_server_unarmed:
  "hb_heartBeats (fst st) server = None \<Longrightarrow>
   hb_heartBeats (fst (hb_run st evs)) server = None
   \<and> timeouts (snd (hb_run st evs)) = timeouts (snd st)"
proof (induction evs arbitrary: st)
  case Nil
  then show ?case by simp
next
  case (Cons ev evs)
  from hb_step_server_unarmed [OF Cons.prems, of ev] Cons.IH [of "hb_step st ev"]
  show ?case by simp
qed

text \<open>
  C8. For a session with a non-zero server heart-beat period, when the scheduler fires
  for the inbound direction and the remaining time computed is 0, the connection is
  escalated once with the connection error of a server heart-beat timeout, no frame is
  sent, the outbound timer is left as it was and no inbound timer is pending afterwards.
  Whatever then happens to the listener (the outbound timer firing, frames received or
  sent, the loss of the connection), the inbound timer is not scheduled again and no
  further timeout is raised.
\<close>

theorem server_beat_escalates_once:
  assumes "serverHeartBeat (session conn) \<noteq> 0"
    and "HeartBeatListener_beatRemaining l (session conn) server t1 = 0"
  shows "\<exists>l'.
      HeartBeatListener_beat l (Some conn) server (t1, ts, t2)
        = (l', Some (conn\<lparr>calls := calls conn @
             [Disconnect (Exn StompConnectionError ''Server heart-beat timeout'')]\<rparr>))
    \<and> hb_heartBeats l' server = None
    \<and> hb_heartBeats l' client = hb_heartBeats l client
    \<and> (\<forall>evs. hb_heartBeats (fst (hb_run (l', conn\<lparr>calls := calls conn @
               [Disconnect (Exn StompConnectionError ''Server heart-beat timeout'')]\<rparr>) evs))
             server = None
           \<and> timeouts (snd (hb_run (l', conn\<lparr>calls := calls conn @
               [Disconnect (Exn StompConnectionError ''Server heart-beat timeout'')]\<rparr>) evs))
             = Suc (timeouts conn))"
proof -
  let ?conn' = "conn\<lparr>calls := calls conn @
             [Disconnect (Exn StompConnectionError ''Server heart-beat timeout'')]\<rparr>"
  let ?l' = "l\<lparr>hb_heartBeats := (hb_heartBeats l)(server := None)\<rparr>"
  from assms have b: "HeartBeatListener_beat l (Some conn) server (t1, ts, t2)
        = (?l', Some ?conn')"
    by (simp add: HeartBeatListener_beat_def beatRemaining_timers Let_def)
  have u: "hb_heartBeats (fst (?l', ?conn')) server = None" by simp
  have t: "timeouts ?conn' = Suc (timeouts conn)"
    by (simp add: timeouts_def)
  from hb_run_server_unarmed [OF u] t
  have "\<forall>evs. hb_heartBeats (fst (hb_run (?l', ?conn') evs)) server = None
           \<and> timeouts (snd (hb_run (?l', ?conn') evs)) = Suc (timeouts conn)"
    by simp
  with b show ?thesis by simp
qed

theorem server_beat_escalates_once_witness:
  "serverHeartBeat (session (\<lparr>session = \<lparr>clientHeartBeat = 0, serverHeartBeat = 1000,
        lastSent = 0, lastReceived = 0\<rparr>, calls = [], disconnected = Pending\<rparr> :: unit connection))
     \<noteq> 0
   \<and> HeartBeatListener_beatRemaining (HeartBeatListener DEFAULT_THRESHOLDS)
       \<lparr>clientHeartBeat = 0, serverHeartBeat = 1000, lastSent = 0, lastReceived = 0\<rparr> server 2 = 0
   \<and> (\<exists>l'.
        HeartBeatListener_beat (HeartBeatListener DEFAULT_THRESHOLDS)
          (Some (\<lparr>session = \<lparr>clientHeartBeat = 0, serverHeartBeat = 1000, lastSent = 0,
             lastReceived = 0\<rparr>, calls = [], disconnected = Pending\<rparr> :: unit connection))
          server (2, 2, 2)
          = (l', Some \<lparr>session = \<lparr>clientHeartBeat = 0, serverHeartBeat = 1000, lastSent = 0,
               lastReceived = 0\<rparr>,
               calls = [Disconnect (Exn StompConnectionError ''Server heart-beat timeout'')],
               disconnected = Pending\<rparr>)
        \<and> hb_heartBeats l' server = None)"
proof -
  let ?c = "\<lparr>session = \<lparr>clientHeartBeat = 0, serverHeartBeat = 1000,
        lastSent = 0, lastReceived = 0\<rparr>, calls = [], disconnected = Pending\<rparr> :: unit connection"
  have a: "serverHeartBeat (session ?c) \<noteq> 0" by simp
  have b: "HeartBeatListener_beatRemaining (HeartBeatListener DEFAULT_THRESHOLDS)
       (session ?c) server 2 = 0"
    by (simp add: HeartBeatListener_beatRemaining_def HeartBeatListener_def
        DEFAULT_THRESHOLDS_def)
  from server_beat_escalates_once [OF a b, of 2 2] obtain l' where
    "HeartBeatListener_beat (HeartBeatListener DEFAULT_THRESHOLDS) (Some ?c) server (2, 2, 2)
       = (l', Some (?c\<lparr>calls := calls ?c @
             [Disconnect (Exn StompConnectionError ''Server heart-beat timeout'')]\<rparr>))"
    "hb_heartBeats l' server = None"
    by blast
  with a b show ?thesis by simp
qed

section \<open>Properties of the client\<close>

lemma starts_with_iff: "starts_with needle hay \<longleftrightarrow> (\<exists>suf. hay = needle @ suf)"
  by (induction needle hay rule: starts_with.induct) auto

lemma str_in_iff: "str_in needle hay \<longleftrightarrow> (\<exists>pre suf. hay = pre @ needle @ suf)"
proof (induction hay)
  case Nil
  show ?case by auto
next
  case (Cons d ds)
  show ?case
  proof
    assume "str_in needle (d # ds)"
    then consider "starts_with needle (d # ds)" | "str_in needle ds" by auto
    then show "\<exists>pre suf. d # ds = pre @ needle @ suf"
    proof cases
      case 1
      then obtain suf where "d # ds = needle @ suf" by (auto simp: starts_with_iff)
      then have "d # ds = [] @ needle @ suf" by simp
      then show ?thesis by blast
    next
      case 2
      with Cons obtain pre suf where "ds = pre @ needle @ suf" by auto
      then have "d # ds = (d # pre) @ needle @ suf" by simp
      then show ?thesis by blast
    qed
  next
    assume "\<exists>pre suf. d # ds = pre @ needle @ suf"
    then obtain pre suf where e: "d # ds = pre @ needle @ suf" by blast
    show "str_in needle (d # ds)"
    proof (cases pre)
      case Nil
      with e have "starts_with needle (d # ds)" by (auto simp: starts_with_iff)
      then show ?thesis by simp
    next
      case (Cons p ps)
      with e have "ds = ps @ needle @ suf" by simp
      with Cons.IH have "str_in needle ds" by blast
      then show ?thesis by simp
    qed
  qed
qed

lemma sent_log_record: "sent (log_record st lv m) = sent st"
  by (simp add: sent_def log_record_def)

lemma sent_protocol_send: "sent (protocol_send st p f) = sent st @ [(p, f)]"
  by (simp add: sent_def protocol_send_def)

lemma warnings_log_record:
  "warnings (log_record st lv m) = warnings st @ (if lv = WARNING then [m] else [])"
  by (simp add: warnings_def log_record_def)

text \<open>
  C9 as stated fails for a token that is present in the subscription table when the
  session refuses to build the frame: \<^verbatim>\<open>self.session.unsubscribe(token, receipt)\<close> is
  called before the token is popped, so its exception leaves \<^verbatim>\<open>unsubscribe\<close> with
  the record still in the table and no frame sent.
\<close>

theorem unsubscribe_known_token_session_raises:
  "protocol \<lparr>protocol = Some 1, connectedSignal = None, connectedTimeout = None,
       subscriptions = [(''id'', ''4711'') \<mapsto> \<lparr>sub_destination = ''/queue/a'',
          sub_handler = Callable 2, sub_ack = True, sub_errorDestination = None\<rparr>],
       effects = []\<rparr> = Some 1
   \<and> fst (Stomp_unsubscribe \<lparr>protocol = Some 1, connectedSignal = None, connectedTimeout = None,
       subscriptions = [(''id'', ''4711'') \<mapsto> \<lparr>sub_destination = ''/queue/a'',
          sub_handler = Callable 2, sub_ack = True, sub_errorDestination = None\<rparr>],
       effects = []\<rparr> (''id'', ''4711'')
       (Inl (Exn StompProtocolError ''session.unsubscribe failed'')))
     = Inl (Exn StompProtocolError ''session.unsubscribe failed'')
   \<and> subscriptions (snd (Stomp_unsubscribe \<lparr>protocol = Some 1, connectedSignal = None,
       connectedTimeout = None,
       subscriptions = [(''id'', ''4711'') \<mapsto> \<lparr>sub_destination = ''/queue/a'',
          sub_handler = Callable 2, sub_ack = True, sub_errorDestination = None\<rparr>],
       effects = []\<rparr> (''id'', ''4711'')
       (Inl (Exn StompProtocolError ''session.unsubscribe failed'')))) (''id'', ''4711'')
     = Some \<lparr>sub_destination = ''/queue/a'', sub_handler = Callable 2, sub_ack = True,
         sub_errorDestination = None\<rparr>
   \<and> sent (snd (Stomp_unsubscribe \<lparr>protocol = Some 1, connectedSignal = None,
       connectedTimeout = None,
       subscriptions = [(''id'', ''4711'') \<mapsto> \<lparr>sub_destination = ''/queue/a'',
          sub_handler = Callable 2, sub_ack = True, sub_errorDestination = None\<rparr>],
       effects = []\<rparr> (''id'', ''4711'')
       (Inl (Exn StompProtocolError ''session.unsubscribe failed'')))) = []"
  by (simp add: Stomp_unsubscribe_def get_protocol_def sent_def)

text \<open>
  C9, amended. On a connected client, \<^verbatim>\<open>unsubscribe\<close> first has the session build the
  frame. If the session raises, \<^verbatim>\<open>unsubscribe\<close> fails with the session's error,
  nothing is sent and nothing changes, whether the token is in the subscription table or
  not. If the session returns the frame: with a token that is not in the table,
  \<^verbatim>\<open>unsubscribe\<close> fails with the \<^verbatim>\<open>KeyError\<close> of the table, a warning is logged, no
  frame is sent and the table is unchanged; with a token that is in the table, the local
  record is removed and the frame is sent. So a token that is not in the table fails in
  every case, with no frame sent and the table unchanged.
\<close>

theorem unsubscribe_session_then_table:
  assumes "protocol st = Some p"
  shows "(\<forall>e. su = Inl e \<longrightarrow> Stomp_unsubscribe st tok su = (Inl e, st))
       \<and> (\<forall>frame. su = Inr frame \<and> subscriptions st tok = None \<longrightarrow>
            fst (Stomp_unsubscribe st tok su) = Inl (Exn KeyError (fst tok @ ''='' @ snd tok))
          \<and> warnings (snd (Stomp_unsubscribe st tok su))
              = warnings st @ [Cannot_unsubscribe tok]
          \<and> subscriptions (snd (Stomp_unsubscribe st tok su)) = subscriptions st
          \<and> sent (snd (Stomp_unsubscribe st tok su)) = sent st)
       \<and> (\<forall>frame. su = Inr frame \<and> subscriptions st tok \<noteq> None \<longrightarrow>
            fst (Stomp_unsubscribe st tok su) = Inr ()
          \<and> subscriptions (snd (Stomp_unsubscribe st tok su)) = (subscriptions st)(tok := None)
          \<and> sent (snd (Stomp_unsubscribe st tok su)) = sent st @ [(p, frame)])
       \<and> (subscriptions st tok = None \<longrightarrow>
            (\<exists>e. fst (Stomp_unsubscribe st tok su) = Inl e)
          \<and> subscriptions (snd (Stomp_unsubscribe st tok su)) = subscriptions st
          \<and> sent (snd (Stomp_unsubscribe st tok su)) = sent st)"
proof (cases su)
  case (Inl e)
  with assms show ?thesis
    by (simp add: Stomp_unsubscribe_def get_protocol_def)
next
  case (Inr frame)
  show ?thesis
  proof (cases "subscriptions st tok")
    case None
    with Inr assms show ?thesis
      by (simp add: Stomp_unsubscribe_def get_protocol_def sent_log_record
          warnings_log_record)
        (simp add: log_record_def)
  next
    case (Some s)
    with Inr assms show ?thesis
      by (simp add: Stomp_unsubscribe_def get_protocol_def sent_protocol_send)
        (simp add: protocol_send_def sent_def)
  qed
qed

theorem unsubscribe_session_then_table_witness:
  "protocol \<lparr>protocol = Some 1, connectedSignal = None, connectedTimeout = None,
       subscriptions = [(''id'', ''4711'') \<mapsto> \<lparr>sub_destination = ''/queue/a'',
          sub_handler = Callable 2, sub_ack = True, sub_errorDestination = None\<rparr>],
       effects = []\<rparr> = Some 1
   \<and> fst (Stomp_unsubscribe \<lparr>protocol = Some 1, connectedSignal = None, connectedTimeout = None,
       subscriptions = [(''id'', ''4711'') \<mapsto> \<lparr>sub_destination = ''/queue/a'',
          sub_handler = Callable 2, sub_ack = True, sub_errorDestination = None\<rparr>],
       effects = []\<rparr> (''id'', ''0815'')
       (Inr \<lparr>command = ''UNSUBSCRIBE'', headers = [''id'' \<mapsto> ''0815''], body = [], info = []\<rparr>))
     = Inl (Exn KeyError ''id=0815'')
   \<and> sent (snd (Stomp_unsubscribe \<lparr>protocol = Some 1, connectedSignal = None,
       connectedTimeout = None,
       subscriptions = [(''id'', ''4711'') \<mapsto> \<lparr>sub_destination = ''/queue/a'',
          sub_handler = Callable 2, sub_ack = True, sub_errorDestination = None\<rparr>],
       effects = []\<rparr> (''id'', ''4711'')
       (Inr \<lparr>command = ''UNSUBSCRIBE'', headers = [''id'' \<mapsto> ''4711''], body = [], info = []\<rparr>)))
     = [(1, \<lparr>command = ''UNSUBSCRIBE'', headers = [''id'' \<mapsto> ''4711''], body = [], info = []\<rparr>)]
   \<and> Stomp_unsubscribe \<lparr>protocol = Some 1, connectedSignal = None, connectedTimeout = None,
       subscriptions = [(''id'', ''4711'') \<mapsto> \<lparr>sub_destination = ''/queue/a'',
          sub_handler = Callable 2, sub_ack = True, sub_errorDestination = None\<rparr>],
       effects = []\<rparr> (''id'', ''4711'')
       (Inl (Exn StompProtocolError ''session.unsubscribe failed''))
     = (Inl (Exn StompProtocolError ''session.unsubscribe failed''),
        \<lparr>protocol = Some 1, connectedSignal = None, connectedTimeout = None,
         subscriptions = [(''id'', ''4711'') \<mapsto> \<lparr>sub_destination = ''/queue/a'',
            sub_handler = Callable 2, sub_ack = True, sub_errorDestination = None\<rparr>],
         effects = []\<rparr>)"
proof -
  let ?st = "\<lparr>protocol = Some 1, connectedSignal = None, connectedTimeout = None,
       subscriptions = [(''id'', ''4711'') \<mapsto> \<lparr>sub_destination = ''/queue/a'',
          sub_handler = Callable 2, sub_ack = True, sub_errorDestination = None\<rparr>],
       effects = []\<rparr>"
  have a: "protocol ?st = Some 1" by simp
  have n: "subscriptions ?st (''id'', ''0815'') = None"
    and y: "subscriptions ?st (''id'', ''4711'') \<noteq> None"
    and s: "sent ?st = []"
    by (simp_all add: sent_def)
  from unsubscribe_session_then_table [OF a, of
      "Inr \<lparr>command = ''UNSUBSCRIBE'', headers = [''id'' \<mapsto> ''0815''], body = [], info = []\<rparr>"
      "(''id'', ''0815'')"]
    n
  have u: "fst (Stomp_unsubscribe ?st (''id'', ''0815'')
       (Inr \<lparr>command = ''UNSUBSCRIBE'', headers = [''id'' \<mapsto> ''0815''], body = [], info = []\<rparr>))
     = Inl (Exn KeyError ''id=0815'')"
    by simp
  from unsubscribe_session_then_table [OF a, of
      "Inr \<lparr>command = ''UNSUBSCRIBE'', headers = [''id'' \<mapsto> ''4711''], body = [], info = []\<rparr>"
      "(''id'', ''4711'')"]
    y s
  have k: "sent (snd (Stomp_unsubscribe ?st (''id'', ''4711'')
       (Inr \<lparr>command = ''UNSUBSCRIBE'', headers = [''id'' \<mapsto> ''4711''], body = [], info = []\<rparr>)))
     = [(1, \<lparr>command = ''UNSUBSCRIBE'', headers = [''id'' \<mapsto> ''4711''], body = [], info = []\<rparr>)]"
    by simp
  from unsubscribe_session_then_table [OF a, of
      "Inl (Exn StompProtocolError ''session.unsubscribe failed'')" "(''id'', ''4711'')"]
  have r: "Stomp_unsubscribe ?st (''id'', ''4711'')
       (Inl (Exn StompProtocolError ''session.unsubscribe failed''))
     = (Inl (Exn StompProtocolError ''session.unsubscribe failed''), ?st)"
    by simp
  from a u k r show ?thesis by simp
qed

lemma disconnects_log_record: "disconnects (log_record st lv m) = disconnects st"
  by (simp add: disconnects_def log_record_def)

lemma disconnects_Stomp_disconnect:
  "disconnects (snd (Stomp_disconnect st f)) = disconnects st @ [f]"
  by (simp add: Stomp_disconnect_def disconnects_def Let_def get_protocol_def
      split: option.splits)

text \<open>
  C5 as stated fails for the \<^verbatim>\<open>ErrorListener\<close> of \<^verbatim>\<open>listener.py\<close>: an \<^verbatim>\<open>ERROR\<close>
  frame whose \<^verbatim>\<open>message\<close> header contains the marker text makes it call
  \<^verbatim>\<open>connection.disconnect\<close> with a protocol error, like any other \<^verbatim>\<open>ERROR\<close> frame.
\<close>

theorem errorListener_disconnects_on_marker_frame:
  "str_in UNEXPECTED_ACK ''Unexpected ACK received for message-id 4711''
   \<and> calls (ErrorListener_onError
        \<lparr>session = \<lparr>clientHeartBeat = 0, serverHeartBeat = 0, lastSent = 0, lastReceived = 0\<rparr>,
         calls = [], disconnected = Pending\<rparr>
        \<lparr>command = ''ERROR'',
         headers = [''message'' \<mapsto> ''Unexpected ACK received for message-id 4711''],
         body = [], info = ''ERROR frame''\<rparr>)
     = [Disconnect (Exn StompProtocolError ''Received ERROR frame'')]"
  by (simp add: UNEXPECTED_ACK_def ErrorListener_onError_def)

text \<open>
  C5, amended. In the client of \<^verbatim>\<open>client.py\<close>, an \<^verbatim>\<open>ERROR\<close> frame received after the
  handshake (no handshake signal is set) whose \<^verbatim>\<open>message\<close> header contains the marker
  text is logged only, and \<^verbatim>\<open>disconnect\<close> is not called; every other such frame is one
  call of \<^verbatim>\<open>disconnect\<close> with a protocol error naming the frame. While the handshake
  signal is pending, the frame rejects the signal with a protocol error instead. The
  \<^verbatim>\<open>ErrorListener\<close> of \<^verbatim>\<open>listener.py\<close> makes no exception for the marker text: every
  \<^verbatim>\<open>ERROR\<close> frame is a call of \<^verbatim>\<open>disconnect\<close> with a protocol error.
\<close>

theorem onError_marker_logged_others_disconnect:
  "(connectedSignal st = None
      \<and> str_in UNEXPECTED_ACK (case headers frame ''message'' of None \<Rightarrow> [] | Some m \<Rightarrow> m) \<longrightarrow>
        Stomp_onError st frame = (Inr (), log_record st DEBUG AMQ_no_client_individual)
      \<and> disconnects (snd (Stomp_onError st frame)) = disconnects st)
   \<and> (connectedSignal st = None
      \<and> \<not> str_in UNEXPECTED_ACK (case headers frame ''message'' of None \<Rightarrow> [] | Some m \<Rightarrow> m) \<longrightarrow>
        fst (Stomp_onError st frame) = Inr ()
      \<and> disconnects (snd (Stomp_onError st frame))
          = disconnects st @ [Some (Exn StompProtocolError (''Received '' @ info frame))])
   \<and> (connectedSignal st = Some Pending \<longrightarrow>
        Stomp_onError st frame
          = (Inr (), st\<lparr>connectedSignal := Some (Failed (Exn StompProtocolError
               (''While trying to connect, received '' @ info frame)))\<rparr>)
      \<and> disconnects (snd (Stomp_onError st frame)) = disconnects st)
   \<and> calls (ErrorListener_onError conn frame)
       = calls conn @ [Disconnect (Exn StompProtocolError (''Received '' @ info frame))]"
proof -
  have a: "connectedSignal st = None
      \<and> str_in UNEXPECTED_ACK (case headers frame ''message'' of None \<Rightarrow> [] | Some m \<Rightarrow> m) \<longrightarrow>
        Stomp_onError st frame = (Inr (), log_record st DEBUG AMQ_no_client_individual)
      \<and> disconnects (snd (Stomp_onError st frame)) = disconnects st"
    by (simp add: Stomp_onError_def disconnects_log_record)
  have b: "connectedSignal st = None
      \<and> \<not> str_in UNEXPECTED_ACK (case headers frame ''message'' of None \<Rightarrow> [] | Some m \<Rightarrow> m) \<longrightarrow>
        fst (Stomp_onError st frame) = Inr ()
      \<and> disconnects (snd (Stomp_onError st frame))
          = disconnects st @ [Some (Exn StompProtocolError (''Received '' @ info frame))]"
    by (simp add: Stomp_onError_def disconnects_Stomp_disconnect)
  have c: "connectedSignal st = Some Pending \<longrightarrow>
        Stomp_onError st frame
          = (Inr (), st\<lparr>connectedSignal := Some (Failed (Exn StompProtocolError
               (''While trying to connect, received '' @ info frame)))\<rparr>)
      \<and> disconnects (snd (Stomp_onError st frame)) = disconnects st"
    by (simp add: Stomp_onError_def called_def disconnects_def)
  have d: "calls (ErrorListener_onError conn frame)
       = calls conn @ [Disconnect (Exn StompProtocolError (''Received '' @ info frame))]"
    by (simp add: ErrorListener_onError_def)
  from a b c d show ?thesis by blast
qed

theorem onError_marker_logged_others_disconnect_witness:
  "connectedSignal \<lparr>protocol = Some 1, connectedSignal = None, connectedTimeout = None,
       subscriptions = Map.empty, effects = []\<rparr> = None
   \<and> str_in UNEXPECTED_ACK ''Unexpected ACK received for message-id 4711''
   \<and> \<not> str_in UNEXPECTED_ACK ''Broker is going down''
   \<and> disconnects (snd (Stomp_onError \<lparr>protocol = Some 1, connectedSignal = None,
       connectedTimeout = None, subscriptions = Map.empty, effects = []\<rparr>
       \<lparr>command = ''ERROR'',
        headers = [''message'' \<mapsto> ''Unexpected ACK received for message-id 4711''],
        body = [], info = ''ERROR frame''\<rparr>)) = []
   \<and> disconnects (snd (Stomp_onError \<lparr>protocol = Some 1, connectedSignal = None,
       connectedTimeout = None, subscriptions = Map.empty, effects = []\<rparr>
       \<lparr>command = ''ERROR'', headers = [''message'' \<mapsto> ''Broker is going down''],
        body = [], info = ''ERROR frame''\<rparr>))
     = [Some (Exn StompProtocolError ''Received ERROR frame'')]"
proof -
  let ?st = "\<lparr>protocol = Some 1, connectedSignal = None, connectedTimeout = None,
       subscriptions = Map.empty, effects = []\<rparr>"
  let ?f = "\<lparr>command = ''ERROR'',
        headers = [''message'' \<mapsto> ''Unexpected ACK received for message-id 4711''],
        body = [], info = ''ERROR frame''\<rparr> :: dict frame"
  let ?g = "\<lparr>command = ''ERROR'', headers = [''message'' \<mapsto> ''Broker is going down''],
        body = [], info = ''ERROR frame''\<rparr> :: dict frame"
  have s: "connectedSignal ?st = None" by simp
  have m: "str_in UNEXPECTED_ACK ''Unexpected ACK received for message-id 4711''"
    by (simp add: UNEXPECTED_ACK_def)
  have n: "\<not> str_in UNEXPECTED_ACK ''Broker is going down''"
    by (simp add: UNEXPECTED_ACK_def)
  have mf: "str_in UNEXPECTED_ACK (case headers ?f ''message'' of None \<Rightarrow> [] | Some m \<Rightarrow> m)"
    by (simp add: UNEXPECTED_ACK_def)
  have ng: "\<not> str_in UNEXPECTED_ACK (case headers ?g ''message'' of None \<Rightarrow> [] | Some m \<Rightarrow> m)"
    by (simp add: UNEXPECTED_ACK_def)
  have d: "disconnects ?st = []" by (simp add: disconnects_def)
  from onError_marker_logged_others_disconnect [of ?st ?f] s mf
  have "disconnects (snd (Stomp_onError ?st ?f)) = disconnects ?st" by blast
  with d have x: "disconnects (snd (Stomp_onError ?st ?f)) = []" by (simp only:)
  from onError_marker_logged_others_disconnect [of ?st ?g] s ng
  have "disconnects (snd (Stomp_onError ?st ?g))
     = disconnects ?st @ [Some (Exn StompProtocolError (''Received '' @ info ?g))]" by blast
  with d have y: "disconnects (snd (Stomp_onError ?st ?g))
     = [Some (Exn StompProtocolError ''Received ERROR frame'')]" by simp
  from s m n x y show ?thesis by blast
qed

lemma sent_sleep: "sent (sleep st d) = sent st"
  by (simp add: sent_def sleep_def)

lemma warnings_sleep: "warnings (sleep st d) = warnings st"
  by (simp add: warnings_def sleep_def)

lemma protocol_sleep: "protocol (sleep st d) = protocol st"
  by (simp add: sleep_def)

lemma protocol_log_record: "protocol (log_record st lv m) = protocol st"
  by (simp add: log_record_def)

lemma connectEndpoint_all_fail:
  "all_fail endpoint_connect i failover \<Longrightarrow>
     \<exists>st'. Stomp_connectEndpoint st endpoint_connect i failover ending
              = (case ending of StopIteration \<Rightarrow> Inr None | Raises e \<Rightarrow> Inl e, st')
          \<and> protocol st' = protocol st
          \<and> sent st' = sent st
          \<and> warnings st' = warnings st @ candidate_warnings endpoint_connect i failover"
proof (induction failover arbitrary: st i)
  case Nil
  show ?case by (cases ending) simp_all
next
  case (Cons c rest)
  obtain b delay where c: "c = (b, delay)" by (cases c)
  from Cons.prems c obtain e where e: "endpoint_connect i b = Inl e"
    and r: "all_fail endpoint_connect (Suc i) rest"
    by (auto split: sum.splits)
  let ?st1 = "log_record (log_record (sleep st delay) DEBUG (Connecting b)) WARNING
                (Could_not_connect b e)"
  from Cons.IH [OF r, of ?st1] obtain st' where
    s: "Stomp_connectEndpoint ?st1 endpoint_connect (Suc i) rest ending
          = (case ending of StopIteration \<Rightarrow> Inr None | Raises e \<Rightarrow> Inl e, st')"
    and p: "protocol st' = protocol ?st1"
    and t: "sent st' = sent ?st1"
    and w: "warnings st' = warnings ?st1 @ candidate_warnings endpoint_connect (Suc i) rest"
    by blast
  have "Stomp_connectEndpoint st endpoint_connect i (c # rest) ending
          = (case ending of StopIteration \<Rightarrow> Inr None | Raises e \<Rightarrow> Inl e, st')"
    using c e s by (simp add: Let_def)
  moreover have "protocol st' = protocol st"
    using p by (simp add: protocol_log_record protocol_sleep)
  moreover have "sent st' = sent st"
    using t by (simp add: sent_log_record sent_sleep)
  moreover have "warnings st' = warnings st @ candidate_warnings endpoint_connect i (c # rest)"
    using w c e by (simp add: warnings_log_record warnings_sleep)
  ultimately show ?case by blast
qed

lemma candidate_warnings_length:
  "all_fail endpoint_connect i failover \<Longrightarrow>
     length (candidate_warnings endpoint_connect i failover) = length failover"
  by (induction endpoint_connect i failover rule: all_fail.induct) (auto split: sum.splits)

text \<open>
  C3 as stated fails on a single candidate whose connect is refused. When the failover
  sequence then simply ends, \<^verbatim>\<open>connect\<close> fails with an \<^verbatim>\<open>AttributeError\<close>, which
  is not a connection error. When the sequence gives up by raising, \<^verbatim>\<open>connect\<close> fails
  with that very error, the same whether the candidate's failure was a refused
  connection or an unreachable host: it is no summary of the last failure.
\<close>

theorem connect_exhausted_error_not_from_last_failure:
  "map_option fst (Stomp_connect
       \<lparr>protocol = None, connectedSignal = None, connectedTimeout = None,
        subscriptions = Map.empty, effects = []\<rparr>
       \<lparr>command = ''CONNECT'', headers = Map.empty, body = [], info = ''CONNECT frame''\<rparr>
       (\<lambda>i b. Inl (Exn OtherError ''Connection refused''))
       [(\<lparr>host = ''localhost'', port = 61613\<rparr>, 0)] StopIteration Connected
       (\<lambda>d h. (\<lparr>command = ''SUBSCRIBE'', headers = h, body = [], info = []\<rparr>, (''id'', d))) [])
     = Some (Inl (Exn AttributeError ''NoneType object has no attribute loseConnection''))
   \<and> map_option fst (Stomp_connect
       \<lparr>protocol = None, connectedSignal = None, connectedTimeout = None,
        subscriptions = Map.empty, effects = []\<rparr>
       \<lparr>command = ''CONNECT'', headers = Map.empty, body = [], info = ''CONNECT frame''\<rparr>
       (\<lambda>i b. Inl (Exn OtherError ''Connection refused''))
       [(\<lparr>host = ''localhost'', port = 61613\<rparr>, 0)]
       (Raises (Exn StompConnectionError ''Reconnect timeout: 0 attempts'')) Connected
       (\<lambda>d h. (\<lparr>command = ''SUBSCRIBE'', headers = h, body = [], info = []\<rparr>, (''id'', d))) [])
     = Some (Inl (Exn StompConnectionError ''Reconnect timeout: 0 attempts''))
   \<and> map_option fst (Stomp_connect
       \<lparr>protocol = None, connectedSignal = None, connectedTimeout = None,
        subscriptions = Map.empty, effects = []\<rparr>
       \<lparr>command = ''CONNECT'', headers = Map.empty, body = [], info = ''CONNECT frame''\<rparr>
       (\<lambda>i b. Inl (Exn OtherError ''No route to host''))
       [(\<lparr>host = ''localhost'', port = 61613\<rparr>, 0)]
       (Raises (Exn StompConnectionError ''Reconnect timeout: 0 attempts'')) Connected
       (\<lambda>d h. (\<lparr>command = ''SUBSCRIBE'', headers = h, body = [], info = []\<rparr>, (''id'', d))) [])
     = Some (Inl (Exn StompConnectionError ''Reconnect timeout: 0 attempts''))"
  by (simp add: Stomp_connect_def get_protocol_def Let_def sleep_def log_record_def)

text \<open>
  C3, amended. On a client that is not connected, when every candidate of the failover
  sequence fails to connect, each failure (the last one too) is swallowed and logged as
  a warning, one warning per candidate with the candidate's exception, and no frame is
  sent. When the sequence then gives up by raising an error, \<^verbatim>\<open>connect\<close> logs
  \<^verbatim>\<open>Endpoint connect failed\<close> and fails with exactly that error, whatever the failures
  of the candidates were; the client is still not connected.
\<close>

theorem connect_all_candidates_fail:
  assumes "protocol st = None" and "all_fail endpoint_connect 0 failover"
  shows "\<exists>st'. Stomp_connect st frame endpoint_connect failover (Raises err) hs
                 session_subscribe replay = Some (Inl err, st')
     \<and> protocol st' = None
     \<and> sent st' = sent st
     \<and> warnings st' = warnings st @ candidate_warnings endpoint_connect 0 failover
     \<and> length (candidate_warnings endpoint_connect 0 failover) = length failover
     \<and> last (effects st') = Log ERROR Endpoint_connect_failed"
proof -
  from connectEndpoint_all_fail [OF assms(2), of st "Raises err"] obtain st1 where
    s: "Stomp_connectEndpoint st endpoint_connect 0 failover (Raises err) = (Inl err, st1)"
    and p: "protocol st1 = protocol st"
    and t: "sent st1 = sent st"
    and w: "warnings st1 = warnings st @ candidate_warnings endpoint_connect 0 failover"
    by auto
  let ?st' = "log_record st1 ERROR Endpoint_connect_failed"
  have "Stomp_connect st frame endpoint_connect failover (Raises err) hs
          session_subscribe replay = Some (Inl err, ?st')"
    using assms(1) s by (simp add: Stomp_connect_def get_protocol_def)
  moreover have "protocol ?st' = None"
    using p assms(1) by (simp add: protocol_log_record)
  moreover have "sent ?st' = sent st"
    using t by (simp add: sent_log_record)
  moreover have "warnings ?st' = warnings st @ candidate_warnings endpoint_connect 0 failover"
    using w by (simp add: warnings_log_record)
  moreover have "last (effects ?st') = Log ERROR Endpoint_connect_failed"
    by (simp add: log_record_def)
  moreover note candidate_warnings_length [OF assms(2)]
  ultimately show ?thesis by blast
qed

theorem connect_all_candidates_fail_witness:
  "protocol \<lparr>protocol = None, connectedSignal = None, connectedTimeout = None,
        subscriptions = Map.empty, effects = []\<rparr> = None
   \<and> all_fail (\<lambda>i b. if i = 0 then Inl (Exn OtherError ''Connection refused'')
                      else Inl (Exn OtherError ''No route to host'')) 0
       [(\<lparr>host = ''a'', port = 61613\<rparr>, 0), (\<lparr>host = ''b'', port = 61613\<rparr>, 2)]
   \<and> (\<exists>st'. Stomp_connect
       \<lparr>protocol = None, connectedSignal = None, connectedTimeout = None,
        subscriptions = Map.empty, effects = []\<rparr>
       \<lparr>command = ''CONNECT'', headers = Map.empty, body = [], info = ''CONNECT frame''\<rparr>
       (\<lambda>i b. if i = 0 then Inl (Exn OtherError ''Connection refused'')
               else Inl (Exn OtherError ''No route to host''))
       [(\<lparr>host = ''a'', port = 61613\<rparr>, 0), (\<lparr>host = ''b'', port = 61613\<rparr>, 2)]
       (Raises (Exn StompConnectionError ''Reconnect timeout: 1 attempts'')) Connected
       (\<lambda>d h. (\<lparr>command = ''SUBSCRIBE'', headers = h, body = [], info = []\<rparr>, (''id'', d))) []
         = Some (Inl (Exn StompConnectionError ''Reconnect timeout: 1 attempts''), st')
       \<and> warnings st'
           = [Could_not_connect \<lparr>host = ''a'', port = 61613\<rparr> (Exn OtherError ''Connection refused''),
              Could_not_connect \<lparr>host = ''b'', port = 61613\<rparr> (Exn OtherError ''No route to host'')])"
proof -
  let ?st = "\<lparr>protocol = None, connectedSignal = None, connectedTimeout = None,
        subscriptions = Map.empty, effects = []\<rparr>"
  let ?ec = "\<lambda>(i::nat) (b::broker). if i = 0 then Inl (Exn OtherError ''Connection refused'')
               else (Inl (Exn OtherError ''No route to host'') :: exn + ref)"
  let ?fo = "[(\<lparr>host = ''a'', port = 61613\<rparr>, 0::real), (\<lparr>host = ''b'', port = 61613\<rparr>, 2)]"
  have a: "protocol ?st = None" by simp
  have b: "all_fail ?ec 0 ?fo" by simp
  have w: "warnings ?st = []" by (simp add: warnings_def)
  have c: "candidate_warnings ?ec 0 ?fo
     = [Could_not_connect \<lparr>host = ''a'', port = 61613\<rparr> (Exn OtherError ''Connection refused''),
        Could_not_connect \<lparr>host = ''b'', port = 61613\<rparr> (Exn OtherError ''No route to host'')]"
    by simp
  from connect_all_candidates_fail [OF a b,
      of "\<lparr>command = ''CONNECT'', headers = Map.empty, body = [], info = ''CONNECT frame''\<rparr>"
         "Exn StompConnectionError ''Reconnect timeout: 1 attempts''" Connected
         "\<lambda>d h. (\<lparr>command = ''SUBSCRIBE'', headers = h, body = [], info = []\<rparr>, (''id'', d))" "[]"]
    a b w c
  show ?thesis by auto
qed


end
